theory Spec2Isabelle
  imports Complex_Main
begin

section \<open>Training-script templates of the humanization model\<close>

text \<open>
  The two templates \<^verbatim>\<open>pytorch_train.py\<close> and \<^verbatim>\<open>tensorflow_train.py\<close> are
  embedded as functions over an explicit world (the text files the scripts read and
  write, the lines they print, and the ordered list of effects they perform). Calls
  into \<^verbatim>\<open>json\<close>, \<^verbatim>\<open>transformers\<close> and \<^verbatim>\<open>keras\<close> are parameters of the
  model (the records \<open>torch_env\<close> and \<open>tf_env\<close>): each one either returns a value or
  raises, and the scripts' own control flow around them is written out. What a library
  call leaves in the output directory (model, tokenizer, checkpoints, logs) or prints
  itself is recorded as the call, not as files or lines. Logging goes to the logger
  and is left out, except where formatting the message can raise.
\<close>

subsection \<open>Python values\<close>

text \<open>What \<^verbatim>\<open>json.load\<close> returns: \<open>JObject\<close> is a \<^verbatim>\<open>dict\<close> in insertion
  order (its keys distinct), \<open>JArray\<close> a \<^verbatim>\<open>list\<close>.\<close>

datatype json =
    JNull
  | JBool bool
  | JInt int
  | JFloat real
  | JString string
  | JArray "json list"
  | JObject "(string \<times> json) list"

text \<open>The exceptions the scripts can end with. \<open>LibraryError\<close> is an exception
  raised inside a call of \<^verbatim>\<open>transformers\<close> or \<^verbatim>\<open>keras\<close>.\<close>

datatype error =
    FileNotFoundError string
  | OSError string
  | JSONDecodeError
  | AttributeError
  | TypeError
  | KeyError string
  | KeyErrorInt nat
  | IndexError
  | LibraryError string

text \<open>\<^verbatim>\<open>str.endswith\<close>.\<close>

definition endswith :: "string \<Rightarrow> string \<Rightarrow> bool" where
  "endswith s suffix =
     (length suffix \<le> length s \<and> drop (length s - length suffix) s = suffix)"

text \<open>Iterating over a text file (\<^verbatim>\<open>for line in f\<close>): the lines in order, each
  with its newline, the last one possibly without. The first argument is the line read
  so far. A file's text is what Python's text layer delivers (newlines already
  translated to \<^verbatim>\<open>\n\<close>).\<close>

fun file_lines :: "string \<Rightarrow> string \<Rightarrow> string list" where
  "file_lines cur [] = (if cur = [] then [] else [cur])"
| "file_lines cur (c # cs) =
     (if c = CHR 0x0A then (cur @ [c]) # file_lines [] cs
      else file_lines (cur @ [c]) cs)"

text \<open>\<^verbatim>\<open>len(x)\<close> on a loaded value: defined on lists, dicts and strings, a
  \<^verbatim>\<open>TypeError\<close> on numbers, booleans and \<^verbatim>\<open>None\<close>.\<close>

fun py_len :: "json \<Rightarrow> error + nat" where
  "py_len (JArray xs) = Inr (length xs)"
| "py_len (JObject kvs) = Inr (length kvs)"
| "py_len (JString s) = Inr (length s)"
| "py_len _ = Inl TypeError"

text \<open>\<^verbatim>\<open>x[idx]\<close> with an integer index (the data loader's indices are not
  negative).\<close>

fun py_index :: "json \<Rightarrow> nat \<Rightarrow> error + json" where
  "py_index (JArray xs) i = (if i < length xs then Inr (xs ! i) else Inl IndexError)"
| "py_index (JString s) i = (if i < length s then Inr (JString [s ! i]) else Inl IndexError)"
| "py_index (JObject kvs) i = Inl (KeyErrorInt i)"
| "py_index _ i = Inl TypeError"

text \<open>\<^verbatim>\<open>item['key']\<close>: a \<^verbatim>\<open>KeyError\<close> on a dict without the key, a
  \<^verbatim>\<open>TypeError\<close> on anything that is not a dict.\<close>

fun py_item :: "json \<Rightarrow> string \<Rightarrow> error + json" where
  "py_item (JObject kvs) k = (case map_of kvs k of None \<Rightarrow> Inl (KeyError k) | Some v \<Rightarrow> Inr v)"
| "py_item _ k = Inl TypeError"

text \<open>\<^verbatim>\<open>d.get(key, default)\<close> on a dict.\<close>

definition dict_get :: "(string \<times> 'v) list \<Rightarrow> string \<Rightarrow> 'v \<Rightarrow> 'v" where
  "dict_get kvs k d = (case map_of kvs k of None \<Rightarrow> d | Some v \<Rightarrow> v)"

text \<open>\<^verbatim>\<open>d.update({k: v})\<close> for one key: an existing key keeps its place, a new
  one goes last.\<close>

fun dict_update :: "(string \<times> 'v) list \<Rightarrow> string \<Rightarrow> 'v \<Rightarrow> (string \<times> 'v) list" where
  "dict_update [] k v = [(k, v)]"
| "dict_update ((k', v') # kvs) k v =
     (if k' = k then (k, v) # kvs else (k', v') # dict_update kvs k v)"

text \<open>\<^verbatim>\<open>os.path.join(a, b)\<close> for two components (POSIX).\<close>

definition path_join :: "string \<Rightarrow> string \<Rightarrow> string" where
  "path_join a b =
     (if b \<noteq> [] \<and> hd b = CHR ''/'' then b
      else if a = [] \<or> last a = CHR ''/'' then a @ b
      else a @ ''/'' @ b)"

subsection \<open>The world and the effects\<close>

text \<open>The arguments \<^verbatim>\<open>TrainingArguments\<close> is constructed with
  (\<^verbatim>\<open>pytorch_train.py\<close>, lines 95 to 114). The values taken from the configuration
  are passed on as they were loaded.\<close>

record training_args =
  output_dir :: string
  num_train_epochs :: json
  per_device_train_batch_size :: json
  per_device_eval_batch_size :: json
  learning_rate :: json
  warmup_steps :: json
  logging_dir :: string
  logging_steps :: json
  save_steps :: json
  eval_steps :: json
  evaluation_strategy :: string
  save_total_limit :: json
  load_best_model_at_end :: bool
  metric_for_best_model :: string
  greater_is_better :: bool
  fp16 :: json
  dataloader_num_workers :: json
  report_to :: string

text \<open>The Keras callbacks of \<^verbatim>\<open>tensorflow_train.py\<close> (lines 103 to 121) and the
  arguments of its \<^verbatim>\<open>model.fit\<close> call (lines 128 to 135). The training data and
  the validation data are commented out in that call (lines 129 and 130), so the call
  is made without either: \<open>fit_x\<close> and \<open>fit_validation_data\<close> are what
  \<^verbatim>\<open>fit\<close> is given for them.\<close>

datatype callback =
    ModelCheckpoint string string bool
  | EarlyStopping string json
  | ReduceLROnPlateau string real int

record fit_args =
  fit_x :: "json option"
  fit_validation_data :: "json option"
  fit_epochs :: json
  fit_batch_size :: json
  fit_callbacks :: "callback list"

text \<open>The effects of a run, in the order they happen. A library call is recorded
  when it is made; a file write and a print when they have happened. The call of
  \<^verbatim>\<open>trainer.train()\<close> is recorded with the arguments and the callbacks the trainer
  was constructed with.\<close>

datatype event =
    OpenRead string
  | TokenizerFromPretrained string
  | ModelFromPretrained string
  | TrainerTrain training_args "string list"
  | TrainerSaveModel string
  | TokenizerSavePretrained string
  | TrainerEvaluate
  | CreateModel json json json
  | ModelCompile json
  | ModelFit fit_args
  | ModelSave string
  | WriteFile string string
  | Print string

record world =
  files :: "string \<rightharpoonup> string"
  stdout :: "string list"
  trace :: "event list"

type_synonym 'a io = "world \<Rightarrow> (error + 'a) \<times> world"

definition io_return :: "'a \<Rightarrow> 'a io" where
  "io_return x w = (Inr x, w)"

definition io_bind :: "'a io \<Rightarrow> ('a \<Rightarrow> 'b io) \<Rightarrow> 'b io" where
  "io_bind m f w = (case m w of (Inl e, w') \<Rightarrow> (Inl e, w') | (Inr x, w') \<Rightarrow> f x w')"

text \<open>A value or an exception computed without touching the world.\<close>

definition io_of :: "error + 'a \<Rightarrow> 'a io" where
  "io_of r w = (r, w)"

definition io_event :: "event \<Rightarrow> unit io" where
  "io_event ev w = (Inr (), w\<lparr>trace := trace w @ [ev]\<rparr>)"

text \<open>A library call that returns nothing: \<open>None\<close> is a normal return.\<close>

definition io_check :: "error option \<Rightarrow> unit io" where
  "io_check r w = (case r of None \<Rightarrow> (Inr (), w) | Some e \<Rightarrow> (Inl e, w))"

text \<open>\<^verbatim>\<open>open(path, 'r')\<close> followed by reading the whole text.\<close>

definition open_read :: "string \<Rightarrow> string io" where
  "open_read path w =
     (case files w path of
        None \<Rightarrow> (Inl (FileNotFoundError path), w)
      | Some text \<Rightarrow> (Inr text, w\<lparr>trace := trace w @ [OpenRead path]\<rparr>))"

text \<open>\<^verbatim>\<open>open(path, 'w')\<close> followed by writing the text: the first argument says
  whether the path can be opened for writing.\<close>

definition write_file :: "bool \<Rightarrow> string \<Rightarrow> string \<Rightarrow> unit io" where
  "write_file writable path text w =
     (if writable
      then (Inr (), w\<lparr>files := (files w)(path \<mapsto> text),
                       trace := trace w @ [WriteFile path text]\<rparr>)
      else (Inl (OSError path), w))"

text \<open>\<^verbatim>\<open>print(line)\<close>.\<close>

definition print_line :: "string \<Rightarrow> unit io" where
  "print_line line w =
     (Inr (), w\<lparr>stdout := stdout w @ [line], trace := trace w @ [Print line]\<rparr>)"

text \<open>\<^verbatim>\<open>os.path.exists\<close>, on the files of the world.\<close>

definition path_exists :: "world \<Rightarrow> string \<Rightarrow> bool" where
  "path_exists w path = (files w path \<noteq> None)"

subsection \<open>Loading the data\<close>

text \<open>What both scripts take from their surroundings: the \<^verbatim>\<open>json\<close> module
  (\<open>json_loads\<close> parses a text, \<open>None\<close> being a \<^verbatim>\<open>JSONDecodeError\<close>;
  \<open>json_dumps\<close> serialises with the given \<^verbatim>\<open>indent\<close>), and whether a path can
  be opened for writing.\<close>

record py_env =
  json_loads :: "string \<Rightarrow> json option"
  json_dumps :: "nat option \<Rightarrow> json \<Rightarrow> string"
  can_write :: "string \<Rightarrow> bool"

definition loads :: "('a py_env_scheme) \<Rightarrow> string \<Rightarrow> error + json" where
  "loads env text = (case json_loads env text of None \<Rightarrow> Inl JSONDecodeError | Some v \<Rightarrow> Inr v)"

text \<open>\<^verbatim>\<open>[json.loads(line) for line in f]\<close>: the first line that does not parse
  raises.\<close>

fun loads_lines :: "('a py_env_scheme) \<Rightarrow> string list \<Rightarrow> error + json list" where
  "loads_lines env [] = Inr []"
| "loads_lines env (l # ls) =
     (case loads env l of
        Inl e \<Rightarrow> Inl e
      | Inr v \<Rightarrow> (case loads_lines env ls of Inl e \<Rightarrow> Inl e | Inr vs \<Rightarrow> Inr (v # vs)))"

text \<open>The expression both templates load a data file with
  (\<^verbatim>\<open>pytorch_train.py\<close> line 33, \<^verbatim>\<open>tensorflow_train.py\<close> lines 26 to 31), on
  the text of the opened file.\<close>

definition parse_data :: "('a py_env_scheme) \<Rightarrow> string \<Rightarrow> string \<Rightarrow> error + json" where
  "parse_data env data_path text =
     (if endswith data_path ''.json'' then loads env text
      else (case loads_lines env (file_lines [] text) of
              Inl e \<Rightarrow> Inl e
            | Inr vs \<Rightarrow> Inr (JArray vs)))"

text \<open>\<^verbatim>\<open>load_data\<close> of \<^verbatim>\<open>tensorflow_train.py\<close>. The log message formats
  \<^verbatim>\<open>len(data)\<close>, which raises on a document that has no length.\<close>

definition load_data :: "('a py_env_scheme) \<Rightarrow> string \<Rightarrow> json io" where
  "load_data env data_path =
     io_bind (open_read data_path) (\<lambda>text.
     io_bind (io_of (parse_data env data_path text)) (\<lambda>data.
     io_bind (io_of (py_len data)) (\<lambda>_.
     io_return data)))"

subsection \<open>The PyTorch template: dataset and encoding\<close>

text \<open>A tensor of up to two dimensions, and \<^verbatim>\<open>Tensor.squeeze()\<close> without a
  dimension argument, which removes every dimension of size one.\<close>

datatype tensor = Tensor0 int | Tensor1 "int list" | Tensor2 "int list list"

fun squeeze :: "tensor \<Rightarrow> tensor" where
  "squeeze (Tensor0 x) = Tensor0 x"
| "squeeze (Tensor1 [x]) = Tensor0 x"
| "squeeze (Tensor1 xs) = Tensor1 xs"
| "squeeze (Tensor2 [[x]]) = Tensor0 x"
| "squeeze (Tensor2 [row]) = Tensor1 row"
| "squeeze (Tensor2 rows) =
     (if rows \<noteq> [] \<and> list_all (\<lambda>r. length r = 1) rows then Tensor1 (map hd rows)
      else Tensor2 rows)"

text \<open>The shape of a tensor, as the list of its dimensions.\<close>

fun shape :: "tensor \<Rightarrow> nat list" where
  "shape (Tensor0 x) = []"
| "shape (Tensor1 xs) = [length xs]"
| "shape (Tensor2 rows) = [length rows, (case rows of [] \<Rightarrow> 0 | r # _ \<Rightarrow> length r)]"

text \<open>What a tokenizer call returns (\<^verbatim>\<open>return_tensors='pt'\<close>), and the tokenizer
  itself: its name and its call with \<^verbatim>\<open>padding='max_length'\<close> and
  \<^verbatim>\<open>truncation=True\<close>, given the text and \<^verbatim>\<open>max_length\<close>.\<close>

record batch_encoding =
  be_input_ids :: tensor
  be_attention_mask :: tensor

datatype tokenizer = Tokenizer string "json \<Rightarrow> json \<Rightarrow> error + batch_encoding"

fun tokenizer_call :: "tokenizer \<Rightarrow> json \<Rightarrow> json \<Rightarrow> error + batch_encoding" where
  "tokenizer_call (Tokenizer name f) text max_len = f text max_len"

text \<open>The fields of a \<^verbatim>\<open>HumanizationDataset\<close> and the dictionary its
  \<^verbatim>\<open>__getitem__\<close> returns.\<close>

record dataset =
  ds_tokenizer :: tokenizer
  ds_max_length :: json
  ds_data :: json

record encoded_example =
  ex_input_ids :: tensor
  ex_attention_mask :: tensor
  ex_labels :: tensor

text \<open>\<^verbatim>\<open>HumanizationDataset.__init__\<close> (lines 27 to 35): it opens and parses the
  file and logs the number of examples. No field of a record is read here.\<close>

definition HumanizationDataset_init ::
  "('a py_env_scheme) \<Rightarrow> string \<Rightarrow> tokenizer \<Rightarrow> json \<Rightarrow> dataset io" where
  "HumanizationDataset_init env data_path tk max_len =
     io_bind (open_read data_path) (\<lambda>text.
     io_bind (io_of (parse_data env data_path text)) (\<lambda>d.
     io_bind (io_of (py_len d)) (\<lambda>_.
     io_return \<lparr>ds_tokenizer = tk, ds_max_length = max_len, ds_data = d\<rparr>)))"

text \<open>\<^verbatim>\<open>HumanizationDataset.__len__\<close>, and the truth value of
  \<^verbatim>\<open>val_dataset\<close> in \<^verbatim>\<open>if val_dataset\<close>: \<^verbatim>\<open>None\<close> is false, and a
  dataset, which defines \<^verbatim>\<open>__len__\<close> and no \<^verbatim>\<open>__bool__\<close>, is true when its
  length is not zero.\<close>

definition dataset_len :: "dataset \<Rightarrow> error + nat" where
  "dataset_len ds = py_len (ds_data ds)"

fun dataset_bool :: "dataset option \<Rightarrow> error + bool" where
  "dataset_bool None = Inr False"
| "dataset_bool (Some ds) =
     (case dataset_len ds of Inl e \<Rightarrow> Inl e | Inr n \<Rightarrow> Inr (n \<noteq> 0))"

text \<open>Sequencing of steps that can raise.\<close>

definition result_bind :: "error + 'a \<Rightarrow> ('a \<Rightarrow> error + 'b) \<Rightarrow> error + 'b" where
  "result_bind r f = (case r of Inl e \<Rightarrow> Inl e | Inr x \<Rightarrow> f x)"

text \<open>\<^verbatim>\<open>HumanizationDataset.__getitem__\<close> (lines 40 to 66).\<close>

definition getitem :: "dataset \<Rightarrow> nat \<Rightarrow> error + encoded_example" where
  "getitem ds idx =
     result_bind (py_index (ds_data ds) idx) (\<lambda>item.
     result_bind (py_item item ''input'') (\<lambda>original.
     result_bind (py_item item ''output'') (\<lambda>humanized.
     result_bind (tokenizer_call (ds_tokenizer ds) original (ds_max_length ds)) (\<lambda>inputs.
     result_bind (tokenizer_call (ds_tokenizer ds) humanized (ds_max_length ds)) (\<lambda>targets.
     Inr \<lparr>ex_input_ids = squeeze (be_input_ids inputs),
          ex_attention_mask = squeeze (be_attention_mask inputs),
          ex_labels = squeeze (be_input_ids targets)\<rparr>)))))"

subsection \<open>The PyTorch template: the run\<close>

datatype model = Model string

text \<open>What a \<^verbatim>\<open>Trainer\<close> is constructed from (lines 117 to 123). The source passes
  no \<^verbatim>\<open>callbacks\<close> argument, so the trainer is given no callback: \<open>tr_callbacks\<close>
  lists the callback classes passed, and is empty.\<close>

record trainer =
  tr_model :: model
  tr_args :: training_args
  tr_train_dataset :: dataset
  tr_eval_dataset :: "dataset option"
  tr_tokenizer :: tokenizer
  tr_callbacks :: "string list"

text \<open>What \<^verbatim>\<open>trainer.train()\<close> returns: \<^verbatim>\<open>training_loss\<close> and the
  \<^verbatim>\<open>metrics\<close> dictionary.\<close>

record train_result =
  training_loss :: json
  result_metrics :: "(string \<times> json) list"

text \<open>The library calls of \<^verbatim>\<open>pytorch_train.py\<close>.\<close>

record torch_env = py_env +
  tokenizer_from_pretrained :: "string \<Rightarrow> error + tokenizer"
  model_from_pretrained :: "string \<Rightarrow> error + model"
  training_arguments_init :: "training_args \<Rightarrow> error option"
  trainer_init :: "trainer \<Rightarrow> error option"
  trainer_train :: "trainer \<Rightarrow> error + train_result"
  trainer_save_model :: "trainer \<Rightarrow> error option"
  tokenizer_save_pretrained :: "tokenizer \<Rightarrow> string \<Rightarrow> error option"
  trainer_evaluate :: "trainer \<Rightarrow> error + (string \<times> json) list"

text \<open>\<^verbatim>\<open>config.get\<close> exists only on a dict: on any other loaded document the first
  \<^verbatim>\<open>config.get\<close> raises \<^verbatim>\<open>AttributeError\<close>.\<close>

fun config_dict :: "json \<Rightarrow> error + (string \<times> json) list" where
  "config_dict (JObject kvs) = Inr kvs"
| "config_dict _ = Inl AttributeError"

text \<open>The \<^verbatim>\<open>TrainingArguments\<close> of lines 95 to 114, given the configuration and
  the truth value of \<^verbatim>\<open>val_dataset\<close>.\<close>

definition pytorch_training_args ::
  "string \<Rightarrow> (string \<times> json) list \<Rightarrow> bool \<Rightarrow> training_args" where
  "pytorch_training_args out_dir cfg has_val =
     \<lparr>output_dir = out_dir,
      num_train_epochs = dict_get cfg ''epochs'' (JInt 10),
      per_device_train_batch_size = dict_get cfg ''batch_size'' (JInt 8),
      per_device_eval_batch_size = dict_get cfg ''batch_size'' (JInt 8),
      learning_rate = dict_get cfg ''learning_rate'' (JFloat (5 / 100000)),
      warmup_steps = dict_get cfg ''warmup_steps'' (JInt 500),
      logging_dir = out_dir @ ''/logs'',
      logging_steps = dict_get cfg ''logging_steps'' (JInt 100),
      save_steps = dict_get cfg ''save_steps'' (JInt 1000),
      eval_steps = (if has_val then dict_get cfg ''eval_steps'' (JInt 500) else JNull),
      evaluation_strategy = (if has_val then ''steps'' else ''no''),
      save_total_limit = dict_get cfg ''save_total_limit'' (JInt 3),
      load_best_model_at_end = (if has_val then True else False),
      metric_for_best_model = ''loss'',
      greater_is_better = False,
      fp16 = dict_get cfg ''fp16'' (JBool False),
      dataloader_num_workers = dict_get cfg ''num_workers'' (JInt 4),
      report_to = ''none''\<rparr>"

text \<open>Lines 89 to 92: the validation dataset is loaded when the path is given, not
  empty, and exists.\<close>

definition pytorch_load_val ::
  "('a py_env_scheme) \<Rightarrow> string option \<Rightarrow> tokenizer \<Rightarrow> json \<Rightarrow> dataset option io" where
  "pytorch_load_val env val_data_path tk max_len w =
     (case val_data_path of
        None \<Rightarrow> (Inr None, w)
      | Some p \<Rightarrow>
          if p \<noteq> [] \<and> path_exists w p
          then io_bind (HumanizationDataset_init env p tk max_len) (\<lambda>ds. io_return (Some ds)) w
          else (Inr None, w))"

text \<open>Lines 135 to 146: the metrics dictionary, given the result of training and, when
  the validation dataset is true, of \<^verbatim>\<open>trainer.evaluate()\<close>.\<close>

definition train_metrics :: "train_result \<Rightarrow> (string \<times> json) list" where
  "train_metrics r =
     [(''train_loss'', training_loss r),
      (''train_runtime'', dict_get (result_metrics r) ''train_runtime'' (JInt 0)),
      (''train_samples_per_second'',
         dict_get (result_metrics r) ''train_samples_per_second'' (JInt 0)),
      (''epoch'', dict_get (result_metrics r) ''epoch'' (JInt 0))]"

definition pytorch_evaluate ::
  "torch_env \<Rightarrow> trainer \<Rightarrow> bool \<Rightarrow> (string \<times> json) list \<Rightarrow> (string \<times> json) list io" where
  "pytorch_evaluate env tr has_val metrics =
     (if has_val
      then io_bind (io_event TrainerEvaluate) (\<lambda>_.
           io_bind (io_of (trainer_evaluate env tr)) (\<lambda>eval_result.
           io_return (dict_update metrics ''eval_loss'' (dict_get eval_result ''eval_loss'' (JInt 0)))))
      else io_return metrics)"

text \<open>\<^verbatim>\<open>train_model\<close> of \<^verbatim>\<open>pytorch_train.py\<close> (lines 69 to 155). The source
  asks for the truth value of \<^verbatim>\<open>val_dataset\<close> four times (lines 105, 106, 108 and
  142) and gets the same answer each time; here it is computed once, where it is first
  asked for. The values the trainer reports are numbers, so that \<^verbatim>\<open>json.dump\<close> of
  the record does not raise; opening the metrics file can.\<close>

definition pytorch_train_model ::
  "torch_env \<Rightarrow> string \<Rightarrow> string \<Rightarrow> string option \<Rightarrow> string \<Rightarrow> json \<Rightarrow> json io" where
  "pytorch_train_model env model_name train_data_path val_data_path out_dir config =
     io_bind (io_event (TokenizerFromPretrained model_name)) (\<lambda>_.
     io_bind (io_of (tokenizer_from_pretrained env model_name)) (\<lambda>tk.
     io_bind (io_event (ModelFromPretrained model_name)) (\<lambda>_.
     io_bind (io_of (model_from_pretrained env model_name)) (\<lambda>m.
     io_bind (io_of (config_dict config)) (\<lambda>cfg.
     io_bind (HumanizationDataset_init env train_data_path tk
                (dict_get cfg ''max_length'' (JInt 512))) (\<lambda>train_dataset.
     io_bind (pytorch_load_val env val_data_path tk
                (dict_get cfg ''max_length'' (JInt 512))) (\<lambda>val_dataset.
     io_bind (io_of (dataset_bool val_dataset)) (\<lambda>has_val.
     io_bind (io_check (training_arguments_init env
                (pytorch_training_args out_dir cfg has_val))) (\<lambda>_.
     io_bind (io_return \<lparr>tr_model = m,
                tr_args = pytorch_training_args out_dir cfg has_val,
                tr_train_dataset = train_dataset, tr_eval_dataset = val_dataset,
                tr_tokenizer = tk, tr_callbacks = []\<rparr>) (\<lambda>tr.
     io_bind (io_check (trainer_init env tr)) (\<lambda>_.
     io_bind (io_event (TrainerTrain (tr_args tr) (tr_callbacks tr))) (\<lambda>_.
     io_bind (io_of (trainer_train env tr)) (\<lambda>train_res.
     io_bind (io_event (TrainerSaveModel out_dir)) (\<lambda>_.
     io_bind (io_check (trainer_save_model env tr)) (\<lambda>_.
     io_bind (io_event (TokenizerSavePretrained out_dir)) (\<lambda>_.
     io_bind (io_check (tokenizer_save_pretrained env tk out_dir)) (\<lambda>_.
     io_bind (pytorch_evaluate env tr has_val (train_metrics train_res)) (\<lambda>metrics.
     io_bind (write_file (can_write env (path_join out_dir ''training_metrics.json''))
                (path_join out_dir ''training_metrics.json'')
                (json_dumps env (Some 2) (JObject metrics))) (\<lambda>_.
     io_return (JObject metrics))))))))))))))))))))"

text \<open>The command line as \<^verbatim>\<open>argparse\<close> has parsed it (\<^verbatim>\<open>--val-data\<close> is
  optional; a command line that does not parse ends the process inside
  \<^verbatim>\<open>parse_args\<close>, before anything else happens), \<^verbatim>\<open>main\<close> (lines 158 to 184) and
  the exit status of the script: \<^verbatim>\<open>sys.exit(main())\<close> exits with what
  \<^verbatim>\<open>main\<close> returns, and an exception that nothing catches ends the process with
  status 1.\<close>

record args =
  arg_train_data :: string
  arg_val_data :: "string option"
  arg_output_dir :: string
  arg_config :: string

record torch_args = args +
  arg_model_name :: string

definition pytorch_main :: "torch_env \<Rightarrow> torch_args \<Rightarrow> int io" where
  "pytorch_main env a =
     io_bind (open_read (arg_config a)) (\<lambda>text.
     io_bind (io_of (loads env text)) (\<lambda>config.
     io_bind (pytorch_train_model env (arg_model_name a) (arg_train_data a) (arg_val_data a)
                (arg_output_dir a) config) (\<lambda>metrics.
     io_bind (print_line (''METRICS: '' @ json_dumps env None metrics)) (\<lambda>_.
     io_return 0))))"

definition exit_status :: "error + int \<Rightarrow> int" where
  "exit_status r = (case r of Inl e \<Rightarrow> 1 | Inr rc \<Rightarrow> rc)"

definition pytorch_script :: "torch_env \<Rightarrow> torch_args \<Rightarrow> world \<Rightarrow> int \<times> world" where
  "pytorch_script env a w = (case pytorch_main env a w of (r, w') \<Rightarrow> (exit_status r, w'))"

subsection \<open>The TensorFlow template\<close>

text \<open>The model \<^verbatim>\<open>create_model\<close> builds, the history \<^verbatim>\<open>model.fit\<close> returns
  (\<^verbatim>\<open>history.history\<close>: for each metric its value after each epoch), and the calls
  into Keras: \<^verbatim>\<open>create_model\<close> (lines 37 to 59: Keras layers only, built from the
  vocabulary size, the embedding width and the hidden width; its \<^verbatim>\<open>config\<close>
  argument is not used), the optimizer and \<^verbatim>\<open>model.compile\<close>, \<^verbatim>\<open>model.fit\<close> and
  \<^verbatim>\<open>model.save\<close>.\<close>

datatype keras_model = KerasModel json json json

type_synonym history = "(string \<times> real list) list"

record tf_env = py_env +
  create_model :: "json \<Rightarrow> json \<Rightarrow> json \<Rightarrow> error + keras_model"
  model_compile :: "keras_model \<Rightarrow> json \<Rightarrow> error option"
  model_fit :: "keras_model \<Rightarrow> fit_args \<Rightarrow> error + history"
  model_save :: "keras_model \<Rightarrow> string \<Rightarrow> error option"

text \<open>The truth value of a loaded value (\<^verbatim>\<open>if val_data\<close>).\<close>

fun py_bool :: "json \<Rightarrow> bool" where
  "py_bool JNull = False"
| "py_bool (JBool b) = b"
| "py_bool (JInt i) = (i \<noteq> 0)"
| "py_bool (JFloat x) = (x \<noteq> 0)"
| "py_bool (JString s) = (s \<noteq> [])"
| "py_bool (JArray xs) = (xs \<noteq> [])"
| "py_bool (JObject kvs) = (kvs \<noteq> [])"

fun val_data_bool :: "json option \<Rightarrow> bool" where
  "val_data_bool None = False"
| "val_data_bool (Some v) = py_bool v"

text \<open>Lines 76 to 79.\<close>

definition tensorflow_load_val ::
  "('a py_env_scheme) \<Rightarrow> string option \<Rightarrow> json option io" where
  "tensorflow_load_val env val_data_path w =
     (case val_data_path of
        None \<Rightarrow> (Inr None, w)
      | Some p \<Rightarrow>
          if p \<noteq> [] \<and> path_exists w p
          then io_bind (load_data env p) (\<lambda>d. io_return (Some d)) w
          else (Inr None, w))"

text \<open>Lines 103 to 121: the list of callbacks. It is built from the output
  directory and the configuration alone.\<close>

definition callbacks_list :: "string \<Rightarrow> (string \<times> json) list \<Rightarrow> callback list" where
  "callbacks_list out_dir cfg =
     [ModelCheckpoint
        (path_join (path_join out_dir ''checkpoints'')
           ''checkpoint-{epoch:02d}-{val_loss:.2f}.h5'')
        ''val_loss'' True,
      EarlyStopping ''val_loss'' (dict_get cfg ''early_stopping_patience'' (JInt 3)),
      ReduceLROnPlateau ''val_loss'' (1 / 2) 2]"

definition tensorflow_fit_args :: "string \<Rightarrow> (string \<times> json) list \<Rightarrow> fit_args" where
  "tensorflow_fit_args out_dir cfg =
     \<lparr>fit_x = None,
      fit_validation_data = None,
      fit_epochs = dict_get cfg ''epochs'' (JInt 10),
      fit_batch_size = dict_get cfg ''batch_size'' (JInt 32),
      fit_callbacks = callbacks_list out_dir cfg\<rparr>"

text \<open>\<^verbatim>\<open>history.history[key][-1]\<close>.\<close>

definition history_last :: "history \<Rightarrow> string \<Rightarrow> error + real" where
  "history_last h k =
     (case map_of h k of
        None \<Rightarrow> Inl (KeyError k)
      | Some xs \<Rightarrow> if xs = [] then Inl IndexError else Inr (last xs))"

definition history_len :: "history \<Rightarrow> string \<Rightarrow> error + nat" where
  "history_len h k =
     (case map_of h k of None \<Rightarrow> Inl (KeyError k) | Some xs \<Rightarrow> Inr (length xs))"

text \<open>Lines 142 to 152: the metrics dictionary.\<close>

definition tensorflow_metrics :: "history \<Rightarrow> bool \<Rightarrow> error + (string \<times> json) list" where
  "tensorflow_metrics h has_val =
     result_bind (history_last h ''loss'') (\<lambda>loss.
     result_bind (history_last h ''accuracy'') (\<lambda>accuracy.
     result_bind (history_len h ''loss'') (\<lambda>n.
     if has_val
     then result_bind (history_last h ''val_loss'') (\<lambda>val_loss.
          result_bind (history_last h ''val_accuracy'') (\<lambda>val_accuracy.
          Inr [(''final_train_loss'', JFloat loss),
               (''final_train_accuracy'', JFloat accuracy),
               (''epochs_trained'', JInt (int n)),
               (''final_val_loss'', JFloat val_loss),
               (''final_val_accuracy'', JFloat val_accuracy)]))
     else Inr [(''final_train_loss'', JFloat loss),
               (''final_train_accuracy'', JFloat accuracy),
               (''epochs_trained'', JInt (int n))])))"

text \<open>\<^verbatim>\<open>train_model\<close> of \<^verbatim>\<open>tensorflow_train.py\<close> (lines 62 to 160).\<close>

definition tensorflow_train_model ::
  "tf_env \<Rightarrow> string \<Rightarrow> string option \<Rightarrow> string \<Rightarrow> json \<Rightarrow> json io" where
  "tensorflow_train_model env train_data_path val_data_path out_dir config =
     io_bind (load_data env train_data_path) (\<lambda>train_data.
     io_bind (tensorflow_load_val env val_data_path) (\<lambda>val_data.
     io_bind (io_of (config_dict config)) (\<lambda>cfg.
     io_bind (io_event (CreateModel (dict_get cfg ''vocab_size'' (JInt 10000))
                (dict_get cfg ''embedding_dim'' (JInt 256))
                (dict_get cfg ''hidden_units'' (JInt 512)))) (\<lambda>_.
     io_bind (io_of (create_model env (dict_get cfg ''vocab_size'' (JInt 10000))
                (dict_get cfg ''embedding_dim'' (JInt 256))
                (dict_get cfg ''hidden_units'' (JInt 512)))) (\<lambda>m.
     io_bind (io_event (ModelCompile (dict_get cfg ''learning_rate'' (JFloat (1 / 1000))))) (\<lambda>_.
     io_bind (io_check (model_compile env m
                (dict_get cfg ''learning_rate'' (JFloat (1 / 1000))))) (\<lambda>_.
     io_bind (io_event (ModelFit (tensorflow_fit_args out_dir cfg))) (\<lambda>_.
     io_bind (io_of (model_fit env m (tensorflow_fit_args out_dir cfg))) (\<lambda>h.
     io_bind (io_event (ModelSave (path_join out_dir ''model''))) (\<lambda>_.
     io_bind (io_check (model_save env m (path_join out_dir ''model''))) (\<lambda>_.
     io_bind (io_of (tensorflow_metrics h (val_data_bool val_data))) (\<lambda>metrics.
     io_bind (write_file (can_write env (path_join out_dir ''training_metrics.json''))
                (path_join out_dir ''training_metrics.json'')
                (json_dumps env (Some 2) (JObject metrics))) (\<lambda>_.
     io_return (JObject metrics))))))))))))))"

text \<open>\<^verbatim>\<open>main\<close> of \<^verbatim>\<open>tensorflow_train.py\<close> (lines 163 to 187) and the script.\<close>

definition tensorflow_main :: "tf_env \<Rightarrow> args \<Rightarrow> int io" where
  "tensorflow_main env a =
     io_bind (open_read (arg_config a)) (\<lambda>text.
     io_bind (io_of (loads env text)) (\<lambda>config.
     io_bind (tensorflow_train_model env (arg_train_data a) (arg_val_data a)
                (arg_output_dir a) config) (\<lambda>metrics.
     io_bind (print_line (''METRICS: '' @ json_dumps env None metrics)) (\<lambda>_.
     io_return 0))))"

definition tensorflow_script :: "tf_env \<Rightarrow> args \<Rightarrow> world \<Rightarrow> int \<times> world" where
  "tensorflow_script env a w =
     (case tensorflow_main env a w of (r, w') \<Rightarrow> (exit_status r, w'))"


section \<open>Vocabulary for the properties\<close>

text \<open>The outcome of a computation from a given world: \<open>E\<close> is what holds when it
  raises, \<open>Q\<close> what holds when it returns.\<close>

definition wp ::
  "'a io \<Rightarrow> (error \<Rightarrow> world \<Rightarrow> bool) \<Rightarrow> ('a \<Rightarrow> world \<Rightarrow> bool) \<Rightarrow> world \<Rightarrow> bool" where
  "wp m E Q w = (case m w of (Inl e, w') \<Rightarrow> E e w' | (Inr x, w') \<Rightarrow> Q x w')"

text \<open>The effects performed between two worlds of a run, and the effects a consumer
  of the script can observe: a file written, a line printed.\<close>

definition run_events :: "world \<Rightarrow> world \<Rightarrow> event list" where
  "run_events w w' = drop (length (trace w)) (trace w')"

fun is_output :: "event \<Rightarrow> bool" where
  "is_output (WriteFile p t) = True"
| "is_output (Print l) = True"
| "is_output _ = False"

fun is_print :: "event \<Rightarrow> bool" where
  "is_print (Print l) = True"
| "is_print _ = False"

text \<open>A world reached from the files \<open>fs\<close>, the printed lines \<open>out\<close> and the
  effects \<open>tr\<close> without writing a file or printing a line.\<close>

definition quiet_from ::
  "(string \<rightharpoonup> string) \<Rightarrow> string list \<Rightarrow> event list \<Rightarrow> world \<Rightarrow> bool" where
  "quiet_from fs out tr w' =
     (files w' = fs \<and> stdout w' = out \<and>
      (\<exists>evs. trace w' = tr @ evs \<and> \<not> list_ex is_output evs))"

text \<open>\<^verbatim>\<open>metrics.keys()\<close>.\<close>

fun dict_keys :: "json \<Rightarrow> string list" where
  "dict_keys (JObject kvs) = map fst kvs"
| "dict_keys _ = []"

text \<open>Whether the validation data a script holds is true in \<^verbatim>\<open>if val_dataset\<close>
  and \<^verbatim>\<open>if val_data\<close>: the path is given, not empty and exists, and what was
  loaded from it has at least one element.\<close>

definition val_nonempty ::
  "('a py_env_scheme) \<Rightarrow> string option \<Rightarrow> (string \<rightharpoonup> string) \<Rightarrow> bool" where
  "val_nonempty env vp fs =
     (case vp of
        None \<Rightarrow> False
      | Some p \<Rightarrow>
          p \<noteq> [] \<and>
          (case fs p of
             None \<Rightarrow> False
           | Some text \<Rightarrow>
               (case parse_data env p text of
                  Inl e \<Rightarrow> False
                | Inr d \<Rightarrow> (case py_len d of Inl e \<Rightarrow> False | Inr n \<Rightarrow> n \<noteq> 0))))"

text \<open>The validation file the run opens, as an effect.\<close>

definition val_reads :: "string option \<Rightarrow> (string \<rightharpoonup> string) \<Rightarrow> event list" where
  "val_reads vp fs =
     (case vp of None \<Rightarrow> [] | Some p \<Rightarrow> if p \<noteq> [] \<and> fs p \<noteq> None then [OpenRead p] else [])"

text \<open>A list that is there under a condition.\<close>

definition opt :: "bool \<Rightarrow> 'a list \<Rightarrow> 'a list" where
  "opt b xs = (if b then xs else [])"

text \<open>What a run of a script that ends well has done: only library calls and reads
  (\<open>pre\<close>), then the metrics file, then the \<^verbatim>\<open>METRICS:\<close> line, both from the
  same record \<open>v\<close>.\<close>

definition reported ::
  "('a py_env_scheme) \<Rightarrow> string \<Rightarrow> (string \<rightharpoonup> string) \<Rightarrow> string list \<Rightarrow> event list \<Rightarrow>
     json \<Rightarrow> event list \<Rightarrow> world \<Rightarrow> bool" where
  "reported env od fs out tr v pre w' =
     (\<not> list_ex is_output pre \<and>
      trace w' =
        tr @ pre @
        [WriteFile (path_join od ''training_metrics.json'') (json_dumps env (Some 2) v),
         Print (''METRICS: '' @ json_dumps env None v)] \<and>
      files w' = fs(path_join od ''training_metrics.json'' \<mapsto> json_dumps env (Some 2) v) \<and>
      stdout w' = out @ [''METRICS: '' @ json_dumps env None v])"

text \<open>What \<^verbatim>\<open>train_model\<close> has done when it returns the record \<open>v\<close>: only
  library calls and reads, then the metrics file.\<close>

definition wrote ::
  "('a py_env_scheme) \<Rightarrow> string \<Rightarrow> (string \<rightharpoonup> string) \<Rightarrow> string list \<Rightarrow> event list \<Rightarrow>
     json \<Rightarrow> world \<Rightarrow> bool" where
  "wrote env od fs out tr v w' =
     (stdout w' = out \<and>
      files w' = fs(path_join od ''training_metrics.json'' \<mapsto> json_dumps env (Some 2) v) \<and>
      (\<exists>pre. \<not> list_ex is_output pre \<and>
         trace w' =
           tr @ pre @
           [WriteFile (path_join od ''training_metrics.json'') (json_dumps env (Some 2) v)]))"

text \<open>A run that stopped without a trace a consumer could see: no file changed, no
  line printed.\<close>

definition aborted_cleanly :: "world \<Rightarrow> world \<Rightarrow> bool" where
  "aborted_cleanly w w' =
     (files w' = files w \<and> stdout w' = stdout w \<and> \<not> list_ex is_output (run_events w w'))"

text \<open>A run that printed one line, the \<^verbatim>\<open>METRICS:\<close> line of a record.\<close>

definition printed_once :: "('a py_env_scheme) \<Rightarrow> world \<Rightarrow> world \<Rightarrow> bool" where
  "printed_once env w w' =
     (\<exists>v. stdout w' = stdout w @ [''METRICS: '' @ json_dumps env None v] \<and>
          filter is_print (run_events w w') = [Print (''METRICS: '' @ json_dumps env None v)])"

text \<open>A run whose last two effects are the metrics file and then the
  \<^verbatim>\<open>METRICS:\<close> line, of the same record, with the file in place at the end.\<close>

definition file_then_line :: "('a py_env_scheme) \<Rightarrow> string \<Rightarrow> world \<Rightarrow> world \<Rightarrow> bool" where
  "file_then_line env od w w' =
     (\<exists>v pre.
        \<not> list_ex is_output pre \<and>
        run_events w w' =
          pre @
          [WriteFile (path_join od ''training_metrics.json'') (json_dumps env (Some 2) v),
           Print (''METRICS: '' @ json_dumps env None v)] \<and>
        files w' (path_join od ''training_metrics.json'') = Some (json_dumps env (Some 2) v) \<and>
        stdout w' = stdout w @ [''METRICS: '' @ json_dumps env None v])"

text \<open>What Keras does with a \<^verbatim>\<open>model.fit\<close> call that is given no training data:
  it raises. A library \<open>env\<close> of which this holds behaves like Keras in this
  respect.\<close>

definition keras_fit_needs_data :: "tf_env \<Rightarrow> bool" where
  "keras_fit_needs_data env =
     (\<forall>m fa. fit_x fa = None \<longrightarrow> (\<exists>e. model_fit env m fa = Inl e))"

section \<open>Example inputs\<close>

text \<open>Two records, the data files and configurations of the examples, and
  \<^verbatim>\<open>json.loads\<close> and \<^verbatim>\<open>json.dumps\<close> at the texts and records the examples use
  (nothing else is asked of them there).\<close>

definition ex_record_ab :: json where
  "ex_record_ab = JObject [(''input'', JString ''a''), (''output'', JString ''b'')]"

definition ex_record_cd :: json where
  "ex_record_cd = JObject [(''input'', JString ''c''), (''output'', JString ''d'')]"

definition ex_loads :: "string \<Rightarrow> json option" where
  \<open>ex_loads s =
     (if s = ''{}'' then Some (JObject [])
      else if s = ''{"max_length": 1}'' then Some (JObject [(''max_length'', JInt 1)])
      else if s = ''[]'' then Some (JArray [])
      else if s = ''[{"input": "a", "output": "b"}]'' then Some (JArray [ex_record_ab])
      else if s = ''[{"input": "c", "output": "d"}]'' then Some (JArray [ex_record_cd])
      else if s = ''[{"output": "b"}]'' then Some (JArray [JObject [(''output'', JString ''b'')]])
      else if s = ''{"input": "a", "output": "b"}'' @ [CHR 0x0A] then Some ex_record_ab
      else if s = ''{"input": "c", "output": "d"}'' @ [CHR 0x0A] then Some ex_record_cd
      else None)\<close>

definition ex_files :: "string \<rightharpoonup> string" where
  \<open>ex_files =
     [''config.json'' \<mapsto> ''{}'',
      ''short.json'' \<mapsto> ''{"max_length": 1}'',
      ''train.json'' \<mapsto> ''[{"input": "a", "output": "b"}]'',
      ''val.json'' \<mapsto> ''[{"input": "c", "output": "d"}]'',
      ''empty.json'' \<mapsto> ''[]'',
      ''partial.json'' \<mapsto> ''[{"output": "b"}]'',
      ''train.jsonl'' \<mapsto>
        ''{"input": "a", "output": "b"}'' @ [CHR 0x0A] @
        ''{"input": "c", "output": "d"}'' @ [CHR 0x0A]]\<close>

definition ex_world :: world where
  "ex_world = \<lparr>files = ex_files, stdout = [], trace = []\<rparr>"

text \<open>The metric records of the examples and their serialisations: on one line for
  the \<^verbatim>\<open>METRICS:\<close> line, and with \<^verbatim>\<open>indent=2\<close> for the file (its lines joined by
  newlines).\<close>

definition ex_metrics :: json where
  "ex_metrics =
     JObject [(''train_loss'', JFloat (1 / 2)), (''train_runtime'', JFloat 2),
       (''train_samples_per_second'', JFloat (1 / 2)), (''epoch'', JFloat 1)]"

definition ex_metrics_val :: json where
  "ex_metrics_val =
     JObject [(''train_loss'', JFloat (1 / 2)), (''train_runtime'', JFloat 2),
       (''train_samples_per_second'', JFloat (1 / 2)), (''epoch'', JFloat 1),
       (''eval_loss'', JFloat (1 / 4))]"

fun join_lines :: "string list \<Rightarrow> string" where
  "join_lines [] = []"
| "join_lines [l] = l"
| "join_lines (l # ls) = l @ [CHR 0x0A] @ join_lines ls"

definition ex_dumps :: "nat option \<Rightarrow> json \<Rightarrow> string" where
  \<open>ex_dumps indent v =
     (if v = ex_metrics then
        (if indent = None
         then ''{"train_loss": 0.5, "train_runtime": 2.0, "train_samples_per_second": 0.5, "epoch": 1.0}''
         else join_lines [''{'', ''  "train_loss": 0.5,'', ''  "train_runtime": 2.0,'',
                ''  "train_samples_per_second": 0.5,'', ''  "epoch": 1.0'', ''}''])
      else if v = ex_metrics_val then
        (if indent = None
         then ''{"train_loss": 0.5, "train_runtime": 2.0, "train_samples_per_second": 0.5, "epoch": 1.0, "eval_loss": 0.25}''
         else join_lines [''{'', ''  "train_loss": 0.5,'', ''  "train_runtime": 2.0,'',
                ''  "train_samples_per_second": 0.5,'', ''  "epoch": 1.0,'',
                ''  "eval_loss": 0.25'', ''}''])
      else [])\<close>

text \<open>A tokenizer that honours \<^verbatim>\<open>padding='max_length'\<close> and
  \<^verbatim>\<open>truncation=True\<close>: one id for each character, then the end-of-sequence id 1,
  cut to \<^verbatim>\<open>max_length\<close> ids (the end-of-sequence id kept) and filled up with the
  padding id 0; the result has the shape \<open>[1, max_length]\<close>.\<close>

definition ex_ids :: "string \<Rightarrow> nat \<Rightarrow> int list" where
  "ex_ids s n = (if n = 0 then [] else take (n - 1) (map (\<lambda>c. int (of_char c)) s) @ [1])"

definition ex_tokenizer_call :: "json \<Rightarrow> json \<Rightarrow> error + batch_encoding" where
  "ex_tokenizer_call text_arg max_len =
     (case (text_arg, max_len) of
        (JString s, JInt n) \<Rightarrow>
          if 0 \<le> n
          then Inr \<lparr>be_input_ids =
                      Tensor2 [ex_ids s (nat n) @ replicate (nat n - length (ex_ids s (nat n))) 0],
                    be_attention_mask =
                      Tensor2 [replicate (length (ex_ids s (nat n))) 1 @
                               replicate (nat n - length (ex_ids s (nat n))) 0]\<rparr>
          else Inl (LibraryError ''ValueError'')
      | _ \<Rightarrow> Inl (LibraryError ''ValueError''))"

definition ex_tokenizer :: tokenizer where
  "ex_tokenizer = Tokenizer ''t5-small'' ex_tokenizer_call"

text \<open>A \<^verbatim>\<open>transformers\<close> library in which every call succeeds: the trainer
  reports a loss of 0.5 after one epoch and an evaluation loss of 0.25. A Keras
  library in which every call succeeds but \<^verbatim>\<open>model.fit\<close> without training data,
  which raises a \<^verbatim>\<open>ValueError\<close> as Keras does; given data, it reports a loss of
  0.5 and an accuracy of 0.75 after one epoch.\<close>

definition ex_torch_env :: torch_env where
  "ex_torch_env =
     \<lparr>json_loads = ex_loads, json_dumps = ex_dumps, can_write = (\<lambda>p. True),
      tokenizer_from_pretrained = (\<lambda>name. Inr ex_tokenizer),
      model_from_pretrained = (\<lambda>name. Inr (Model name)),
      training_arguments_init = (\<lambda>ta. None),
      trainer_init = (\<lambda>tr. None),
      trainer_train = (\<lambda>tr. Inr \<lparr>training_loss = JFloat (1 / 2),
        result_metrics = [(''train_runtime'', JFloat 2),
          (''train_samples_per_second'', JFloat (1 / 2)), (''epoch'', JFloat 1)]\<rparr>),
      trainer_save_model = (\<lambda>tr. None),
      tokenizer_save_pretrained = (\<lambda>tk dir. None),
      trainer_evaluate = (\<lambda>tr. Inr [(''eval_loss'', JFloat (1 / 4))])\<rparr>"

definition ex_tf_env :: tf_env where
  "ex_tf_env =
     \<lparr>json_loads = ex_loads, json_dumps = ex_dumps, can_write = (\<lambda>p. True),
      create_model = (\<lambda>vocab_size embedding_dim hidden_units.
        Inr (KerasModel vocab_size embedding_dim hidden_units)),
      model_compile = (\<lambda>m lr. None),
      model_fit = (\<lambda>m fa.
        if fit_x fa = None then Inl (LibraryError ''ValueError'')
        else Inr [(''loss'', [1 / 2]), (''accuracy'', [3 / 4])]),
      model_save = (\<lambda>m path. None)\<rparr>"

text \<open>Command lines: without validation data, with it, with an empty validation
  file, and with a training file that does not exist.\<close>

definition ex_args :: torch_args where
  "ex_args =
     \<lparr>arg_train_data = ''train.json'', arg_val_data = None, arg_output_dir = ''out'',
      arg_config = ''config.json'', arg_model_name = ''t5-small''\<rparr>"

definition ex_args_val :: torch_args where
  "ex_args_val = ex_args\<lparr>arg_val_data := Some ''val.json''\<rparr>"

definition ex_args_empty_val :: torch_args where
  "ex_args_empty_val = ex_args\<lparr>arg_val_data := Some ''empty.json''\<rparr>"

definition ex_args_missing :: torch_args where
  "ex_args_missing = ex_args\<lparr>arg_train_data := ''missing.json''\<rparr>"

definition ex_tf_args :: args where
  "ex_tf_args =
     \<lparr>arg_train_data = ''train.json'', arg_val_data = None, arg_output_dir = ''out'',
      arg_config = ''config.json''\<rparr>"

section \<open>Rules for the outcome of a computation\<close>

text \<open>The rules compute \<open>wp\<close> along the text of a function, one step at a time. The
  world is written as the record of its three fields, so that every step yields a world
  of the same form.\<close>

lemma wp_bind: "wp (io_bind m f) E Q w = wp m E (\<lambda>x w'. wp (f x) E Q w') w"
  by (simp add: wp_def io_bind_def split: prod.split sum.split)

lemma wp_return: "wp (io_return x) E Q w = Q x w"
  by (simp add: wp_def io_return_def)

lemma wp_of: "wp (io_of r) E Q w = (case r of Inl e \<Rightarrow> E e w | Inr x \<Rightarrow> Q x w)"
  by (simp add: wp_def io_of_def split: sum.split)

lemma wp_check: "wp (io_check r) E Q w = (case r of None \<Rightarrow> Q () w | Some e \<Rightarrow> E e w)"
  by (simp add: wp_def io_check_def split: option.split)

lemma wp_if: "wp (if b then m1 else m2) E Q w = (if b then wp m1 E Q w else wp m2 E Q w)"
  by simp

lemma wp_event:
  "wp (io_event ev) E Q \<lparr>files = fs, stdout = out, trace = tr\<rparr> =
     Q () \<lparr>files = fs, stdout = out, trace = tr @ [ev]\<rparr>"
  by (simp add: wp_def io_event_def)

lemma wp_open_read:
  "wp (open_read p) E Q \<lparr>files = fs, stdout = out, trace = tr\<rparr> =
     (case fs p of
        None \<Rightarrow> E (FileNotFoundError p) \<lparr>files = fs, stdout = out, trace = tr\<rparr>
      | Some t \<Rightarrow> Q t \<lparr>files = fs, stdout = out, trace = tr @ [OpenRead p]\<rparr>)"
  by (simp add: wp_def open_read_def split: option.split)

lemma wp_write_file:
  "wp (write_file b p t) E Q \<lparr>files = fs, stdout = out, trace = tr\<rparr> =
     (if b then Q () \<lparr>files = fs(p \<mapsto> t), stdout = out, trace = tr @ [WriteFile p t]\<rparr>
      else E (OSError p) \<lparr>files = fs, stdout = out, trace = tr\<rparr>)"
  by (simp add: wp_def write_file_def)

lemma wp_print_line:
  "wp (print_line l) E Q \<lparr>files = fs, stdout = out, trace = tr\<rparr> =
     Q () \<lparr>files = fs, stdout = out @ [l], trace = tr @ [Print l]\<rparr>"
  by (simp add: wp_def print_line_def)

lemmas wp_rules =
  wp_bind wp_return wp_of wp_check wp_if wp_event wp_open_read wp_write_file wp_print_line

text \<open>From \<open>wp\<close> to a run from any world, and a weaker outcome from a stronger
  one.\<close>

lemma wp_outcome:
  assumes "m w = (r, w')"
    and "wp m E Q \<lparr>files = files w, stdout = stdout w, trace = trace w\<rparr>"
  shows "case r of Inl e \<Rightarrow> E e w' | Inr x \<Rightarrow> Q x w'"
proof -
  have "\<lparr>files = files w, stdout = stdout w, trace = trace w\<rparr> = w"
    by (cases w) simp
  with assms show ?thesis
    by (simp add: wp_def split: sum.split)
qed

lemma wp_weaken:
  assumes "wp m E' Q' w"
    and "\<And>e w'. E' e w' \<Longrightarrow> E e w'"
    and "\<And>x w'. Q' x w' \<Longrightarrow> Q x w'"
  shows "wp m E Q w"
  using assms by (auto simp: wp_def split: prod.splits sum.splits)

text \<open>The rules for the functions of the templates that load data.\<close>

lemma config_dict_Inr [simp]: "config_dict c = Inr cfg \<longleftrightarrow> c = JObject cfg"
  by (cases c) auto

lemma wp_HumanizationDataset_init:
  "wp (HumanizationDataset_init env p tk L) E Q \<lparr>files = fs, stdout = out, trace = tr\<rparr> =
     (case fs p of
        None \<Rightarrow> E (FileNotFoundError p) \<lparr>files = fs, stdout = out, trace = tr\<rparr>
      | Some t \<Rightarrow>
          (case parse_data env p t of
             Inl e \<Rightarrow> E e \<lparr>files = fs, stdout = out, trace = tr @ [OpenRead p]\<rparr>
           | Inr d \<Rightarrow>
               (case py_len d of
                  Inl e \<Rightarrow> E e \<lparr>files = fs, stdout = out, trace = tr @ [OpenRead p]\<rparr>
                | Inr n \<Rightarrow>
                    Q \<lparr>ds_tokenizer = tk, ds_max_length = L, ds_data = d\<rparr>
                      \<lparr>files = fs, stdout = out, trace = tr @ [OpenRead p]\<rparr>)))"
  unfolding HumanizationDataset_init_def by (simp add: wp_rules)

lemma wp_load_data:
  "wp (load_data env p) E Q \<lparr>files = fs, stdout = out, trace = tr\<rparr> =
     (case fs p of
        None \<Rightarrow> E (FileNotFoundError p) \<lparr>files = fs, stdout = out, trace = tr\<rparr>
      | Some t \<Rightarrow>
          (case parse_data env p t of
             Inl e \<Rightarrow> E e \<lparr>files = fs, stdout = out, trace = tr @ [OpenRead p]\<rparr>
           | Inr d \<Rightarrow>
               (case py_len d of
                  Inl e \<Rightarrow> E e \<lparr>files = fs, stdout = out, trace = tr @ [OpenRead p]\<rparr>
                | Inr n \<Rightarrow> Q d \<lparr>files = fs, stdout = out, trace = tr @ [OpenRead p]\<rparr>)))"
  unfolding load_data_def by (simp add: wp_rules)

lemma wp_pytorch_load_val:
  "wp (pytorch_load_val env vp tk L) E Q \<lparr>files = fs, stdout = out, trace = tr\<rparr> =
     (case vp of
        None \<Rightarrow> Q None \<lparr>files = fs, stdout = out, trace = tr\<rparr>
      | Some p \<Rightarrow>
          if p \<noteq> [] \<and> fs p \<noteq> None
          then wp (HumanizationDataset_init env p tk L) E (\<lambda>ds. Q (Some ds))
                 \<lparr>files = fs, stdout = out, trace = tr\<rparr>
          else Q None \<lparr>files = fs, stdout = out, trace = tr\<rparr>)"
  by (cases vp)
    (simp_all add: wp_def pytorch_load_val_def path_exists_def io_bind_def io_return_def
      split: prod.split sum.split)

lemma wp_tensorflow_load_val:
  "wp (tensorflow_load_val env vp) E Q \<lparr>files = fs, stdout = out, trace = tr\<rparr> =
     (case vp of
        None \<Rightarrow> Q None \<lparr>files = fs, stdout = out, trace = tr\<rparr>
      | Some p \<Rightarrow>
          if p \<noteq> [] \<and> fs p \<noteq> None
          then wp (load_data env p) E (\<lambda>d. Q (Some d)) \<lparr>files = fs, stdout = out, trace = tr\<rparr>
          else Q None \<lparr>files = fs, stdout = out, trace = tr\<rparr>)"
  by (cases vp)
    (simp_all add: wp_def tensorflow_load_val_def path_exists_def io_bind_def io_return_def
      split: prod.split sum.split)

lemmas wp_all =
  wp_rules wp_HumanizationDataset_init wp_load_data wp_pytorch_load_val wp_tensorflow_load_val

section \<open>The PyTorch run\<close>

lemma val_nonempty_simps:
  "val_nonempty env None fs = False"
  "val_nonempty env (Some []) fs = False"
  "fs p = None \<Longrightarrow> val_nonempty env (Some p) fs = False"
  "fs p = Some t \<Longrightarrow> parse_data env p t = Inr d \<Longrightarrow> py_len d = Inr n \<Longrightarrow> p \<noteq> [] \<Longrightarrow>
     val_nonempty env (Some p) fs = (n \<noteq> 0)"
  by (simp_all add: val_nonempty_def)

lemma val_reads_simps:
  "val_reads None fs = []"
  "val_reads (Some []) fs = []"
  "fs p = None \<Longrightarrow> val_reads (Some p) fs = []"
  "fs p = Some t \<Longrightarrow> p \<noteq> [] \<Longrightarrow> val_reads (Some p) fs = [OpenRead p]"
  by (simp_all add: val_reads_def)

lemma opt_simps [simp]: "opt True xs = xs" "opt False xs = []"
  by (simp_all add: opt_def)

text \<open>Every outcome of \<^verbatim>\<open>train_model\<close>. When it raises, no file has changed and
  nothing was printed. When it returns the record \<open>v\<close>, the training file exists,
  the record has the keys below, and the effects are exactly the listed ones, the
  metrics file last.\<close>

lemma pytorch_train_model_wp:
  defines "E \<equiv> \<lambda>fs out tr (e :: error) w'. quiet_from fs out tr w'"
    and "Q \<equiv> \<lambda>env mn tp vp od config fs out tr v w'. fs tp \<noteq> None \<and> stdout w' = out \<and>
        files w' = fs(path_join od ''training_metrics.json'' \<mapsto> json_dumps env (Some 2) v) \<and>
        dict_keys v =
          [''train_loss'', ''train_runtime'', ''train_samples_per_second'', ''epoch''] @
          opt (val_nonempty env vp fs) [''eval_loss''] \<and>
        (\<exists>cfg. config = JObject cfg \<and>
           trace w' =
             tr @ [TokenizerFromPretrained mn, ModelFromPretrained mn, OpenRead tp] @
             val_reads vp fs @
             [TrainerTrain (pytorch_training_args od cfg (val_nonempty env vp fs)) [],
              TrainerSaveModel od, TokenizerSavePretrained od] @
             opt (val_nonempty env vp fs) [TrainerEvaluate] @
             [WriteFile (path_join od ''training_metrics.json'') (json_dumps env (Some 2) v)])"
  shows "wp (pytorch_train_model env mn tp vp od config) (E fs out tr)
     (Q env mn tp vp od config fs out tr) \<lparr>files = fs, stdout = out, trace = tr\<rparr>"
  unfolding pytorch_train_model_def pytorch_evaluate_def
  apply (simp add: wp_all dataset_len_def split: sum.split option.split)
  apply (intro conjI allI impI)
  apply (simp_all add: E_def Q_def quiet_from_def val_nonempty_simps val_reads_simps train_metrics_def)
  done

text \<open>Whenever training is started, returning or not, the trainer has the arguments
  of lines 95 to 114 and no callback.\<close>

lemma pytorch_training_started_wp:
  defines "P \<equiv> \<lambda>env vp od config fs tr w'.
      \<forall>ta cbs. TrainerTrain ta cbs \<in> set (drop (length tr) (trace w')) \<longrightarrow>
        cbs = [] \<and>
        (\<exists>cfg. config = JObject cfg \<and>
           ta = pytorch_training_args od cfg (val_nonempty env vp fs))"
  shows "wp (pytorch_train_model env mn tp vp od config)
     (\<lambda>e. P env vp od config fs tr) (\<lambda>v. P env vp od config fs tr)
     \<lparr>files = fs, stdout = out, trace = tr\<rparr>"
  unfolding pytorch_train_model_def pytorch_evaluate_def
  apply (simp add: wp_all dataset_len_def split: sum.split option.split)
  apply (intro conjI allI impI)
  apply (simp_all add: P_def val_nonempty_simps)
  done

section \<open>The TensorFlow run\<close>

lemma py_bool_len: "py_len d = Inr n \<Longrightarrow> py_bool d = (n \<noteq> 0)"
  by (cases d) auto

lemma val_nonempty_py_bool:
  assumes "fs p = Some t" and "parse_data env p t = Inr d" and "\<exists>n. py_len d = Inr n"
    and "p \<noteq> []"
  shows "val_nonempty env (Some p) fs = py_bool d"
  using assms by (auto simp: val_nonempty_def py_bool_len)

lemma tensorflow_metrics_keys:
  assumes "tensorflow_metrics h b = Inr m"
  shows "map fst m =
    [''final_train_loss'', ''final_train_accuracy'', ''epochs_trained''] @
    opt b [''final_val_loss'', ''final_val_accuracy'']"
  using assms
  by (auto simp: tensorflow_metrics_def result_bind_def split: sum.splits if_splits)

lemma tensorflow_train_model_wp:
  defines "E \<equiv> \<lambda>fs out tr (e :: error) w'. quiet_from fs out tr w'"
    and "Q \<equiv> \<lambda>env tp vp od config fs out tr v w'. fs tp \<noteq> None \<and> stdout w' = out \<and>
        files w' = fs(path_join od ''training_metrics.json'' \<mapsto> json_dumps env (Some 2) v) \<and>
        dict_keys v =
          [''final_train_loss'', ''final_train_accuracy'', ''epochs_trained''] @
          opt (val_nonempty env vp fs) [''final_val_loss'', ''final_val_accuracy''] \<and>
        (\<exists>cfg. config = JObject cfg \<and>
           trace w' =
             tr @ [OpenRead tp] @ val_reads vp fs @
             [CreateModel (dict_get cfg ''vocab_size'' (JInt 10000))
                (dict_get cfg ''embedding_dim'' (JInt 256))
                (dict_get cfg ''hidden_units'' (JInt 512)),
              ModelCompile (dict_get cfg ''learning_rate'' (JFloat (1 / 1000))),
              ModelFit (tensorflow_fit_args od cfg),
              ModelSave (path_join od ''model''),
              WriteFile (path_join od ''training_metrics.json'') (json_dumps env (Some 2) v)])"
  shows "wp (tensorflow_train_model env tp vp od config) (E fs out tr)
     (Q env tp vp od config fs out tr) \<lparr>files = fs, stdout = out, trace = tr\<rparr>"
  unfolding tensorflow_train_model_def
  apply (simp add: wp_all split: sum.split option.split)
  apply (intro conjI allI impI)
  apply (simp_all add: E_def Q_def quiet_from_def val_nonempty_simps val_nonempty_py_bool val_reads_simps
      tensorflow_metrics_keys)
  done

lemma tensorflow_fit_started_wp:
  defines "P \<equiv> \<lambda>od config tr w'.
      \<forall>fa. ModelFit fa \<in> set (drop (length tr) (trace w')) \<longrightarrow>
        (\<exists>cfg. config = JObject cfg \<and> fa = tensorflow_fit_args od cfg)"
  shows "wp (tensorflow_train_model env tp vp od config)
     (\<lambda>e. P od config tr) (\<lambda>v. P od config tr)
     \<lparr>files = fs, stdout = out, trace = tr\<rparr>"
  unfolding tensorflow_train_model_def
  apply (simp add: wp_all split: sum.split option.split)
  apply (intro conjI allI impI)
  apply (simp_all add: P_def)
  done

text \<open>With a library that raises in \<^verbatim>\<open>model.fit\<close> when it is given no training
  data, as Keras does, \<^verbatim>\<open>train_model\<close> never returns: the call on lines 128 to 135
  passes none.\<close>

lemma tensorflow_fit_raises:
  assumes "keras_fit_needs_data env"
  shows "model_fit env m (tensorflow_fit_args od cfg) \<noteq> Inr h"
proof -
  have "fit_x (tensorflow_fit_args od cfg) = None"
    by (simp add: tensorflow_fit_args_def)
  with assms obtain e where "model_fit env m (tensorflow_fit_args od cfg) = Inl e"
    unfolding keras_fit_needs_data_def by blast
  then show ?thesis
    by simp
qed

lemma tensorflow_train_model_raises_wp:
  assumes "keras_fit_needs_data env"
  shows "wp (tensorflow_train_model env tp vp od config) (\<lambda>e w'. True) (\<lambda>v w'. False)
     \<lparr>files = fs, stdout = out, trace = tr\<rparr>"
  unfolding tensorflow_train_model_def
  by (simp add: wp_all tensorflow_fit_raises [OF assms] split: sum.split option.split)

section \<open>The two scripts\<close>

lemma quiet_from_extend:
  assumes "quiet_from fs out (tr @ pre) w'" and "\<not> list_ex is_output pre"
  shows "quiet_from fs out tr w'"
  using assms by (auto simp: quiet_from_def)

lemma val_reads_quiet [simp]: "\<not> list_ex is_output (val_reads vp fs)"
  by (simp add: val_reads_def split: option.split)

lemma opt_quiet [simp]: "list_ex is_output (opt b xs) = (b \<and> list_ex is_output xs)"
  by (cases b) simp_all

lemma wroteI:
  assumes "stdout w' = out"
    and "files w' = fs(path_join od ''training_metrics.json'' \<mapsto> json_dumps env (Some 2) v)"
    and "trace w' =
           tr @ pre @
           [WriteFile (path_join od ''training_metrics.json'') (json_dumps env (Some 2) v)]"
    and "\<not> list_ex is_output pre"
  shows "wrote env od fs out tr v w'"
  using assms unfolding wrote_def by blast

lemma pytorch_train_model_summary:
  "wp (pytorch_train_model env mn tp vp od config) (\<lambda>e. quiet_from fs out tr)
     (\<lambda>v w'. fs tp \<noteq> None \<and> wrote env od fs out tr v w')
     \<lparr>files = fs, stdout = out, trace = tr\<rparr>"
proof (rule wp_weaken [OF pytorch_train_model_wp])
  fix v :: json and w' :: world
  assume post: "fs tp \<noteq> None \<and> stdout w' = out \<and>
      files w' = fs(path_join od ''training_metrics.json'' \<mapsto> json_dumps env (Some 2) v) \<and>
      dict_keys v =
        [''train_loss'', ''train_runtime'', ''train_samples_per_second'', ''epoch''] @
        opt (val_nonempty env vp fs) [''eval_loss''] \<and>
      (\<exists>cfg. config = JObject cfg \<and>
         trace w' =
           tr @ [TokenizerFromPretrained mn, ModelFromPretrained mn, OpenRead tp] @
           val_reads vp fs @
           [TrainerTrain (pytorch_training_args od cfg (val_nonempty env vp fs)) [],
            TrainerSaveModel od, TokenizerSavePretrained od] @
           opt (val_nonempty env vp fs) [TrainerEvaluate] @
           [WriteFile (path_join od ''training_metrics.json'') (json_dumps env (Some 2) v)])"
  then obtain cfg where "trace w' =
           tr @ ([TokenizerFromPretrained mn, ModelFromPretrained mn, OpenRead tp] @
           val_reads vp fs @
           [TrainerTrain (pytorch_training_args od cfg (val_nonempty env vp fs)) [],
            TrainerSaveModel od, TokenizerSavePretrained od] @
           opt (val_nonempty env vp fs) [TrainerEvaluate]) @
           [WriteFile (path_join od ''training_metrics.json'') (json_dumps env (Some 2) v)]"
    by auto
  then have "wrote env od fs out tr v w'"
    by (rule wroteI [rotated 2]) (use post in simp_all)
  with post show "fs tp \<noteq> None \<and> wrote env od fs out tr v w'"
    by simp
qed

lemma tensorflow_train_model_summary:
  "wp (tensorflow_train_model env tp vp od config) (\<lambda>e. quiet_from fs out tr)
     (\<lambda>v w'. fs tp \<noteq> None \<and> wrote env od fs out tr v w')
     \<lparr>files = fs, stdout = out, trace = tr\<rparr>"
proof (rule wp_weaken [OF tensorflow_train_model_wp])
  fix v :: json and w' :: world
  assume post: "fs tp \<noteq> None \<and> stdout w' = out \<and>
        files w' = fs(path_join od ''training_metrics.json'' \<mapsto> json_dumps env (Some 2) v) \<and>
        dict_keys v =
          [''final_train_loss'', ''final_train_accuracy'', ''epochs_trained''] @
          opt (val_nonempty env vp fs) [''final_val_loss'', ''final_val_accuracy''] \<and>
        (\<exists>cfg. config = JObject cfg \<and>
           trace w' =
             tr @ [OpenRead tp] @ val_reads vp fs @
             [CreateModel (dict_get cfg ''vocab_size'' (JInt 10000))
                (dict_get cfg ''embedding_dim'' (JInt 256))
                (dict_get cfg ''hidden_units'' (JInt 512)),
              ModelCompile (dict_get cfg ''learning_rate'' (JFloat (1 / 1000))),
              ModelFit (tensorflow_fit_args od cfg),
              ModelSave (path_join od ''model''),
              WriteFile (path_join od ''training_metrics.json'') (json_dumps env (Some 2) v)])"
  then obtain cfg where "trace w' =
             tr @ ([OpenRead tp] @ val_reads vp fs @
             [CreateModel (dict_get cfg ''vocab_size'' (JInt 10000))
                (dict_get cfg ''embedding_dim'' (JInt 256))
                (dict_get cfg ''hidden_units'' (JInt 512)),
              ModelCompile (dict_get cfg ''learning_rate'' (JFloat (1 / 1000))),
              ModelFit (tensorflow_fit_args od cfg),
              ModelSave (path_join od ''model'')]) @
             [WriteFile (path_join od ''training_metrics.json'') (json_dumps env (Some 2) v)]"
    by auto
  then have "wrote env od fs out tr v w'"
    by (rule wroteI [rotated 2]) (use post in simp_all)
  with post show "fs tp \<noteq> None \<and> wrote env od fs out tr v w'"
    by simp
qed

text \<open>The shape both \<^verbatim>\<open>main\<close> functions have: read the configuration, train,
  print the record.\<close>

lemma main_wp:
  assumes train: "\<And>config tr1.
      wp (train config) (\<lambda>e. quiet_from fs out tr1)
        (\<lambda>v w'. A \<and> wrote env od fs out tr1 v w') \<lparr>files = fs, stdout = out, trace = tr1\<rparr>"
  shows "wp
     (io_bind (open_read cpath) (\<lambda>conf_text.
      io_bind (io_of (loads env conf_text)) (\<lambda>config.
      io_bind (train config) (\<lambda>metrics.
      io_bind (print_line (''METRICS: '' @ json_dumps env None metrics)) (\<lambda>_.
      io_return (0 :: int))))))
     (\<lambda>e. quiet_from fs out tr)
     (\<lambda>rc w'. rc = 0 \<and> A \<and> (\<exists>v pre. reported env od fs out tr v pre w'))
     \<lparr>files = fs, stdout = out, trace = tr\<rparr>"
proof (cases "fs cpath")
  case None
  then show ?thesis
    by (simp add: wp_rules quiet_from_def)
next
  case (Some conf_text)
  let ?w1 = "\<lparr>files = fs, stdout = out, trace = tr @ [OpenRead cpath]\<rparr>"
  show ?thesis
  proof (cases "json_loads env conf_text")
    case None
    with Some show ?thesis
      by (simp add: wp_rules loads_def quiet_from_def)
  next
    case config: (Some config)
    obtain r w' where run: "train config ?w1 = (r, w')"
      by (cases "train config ?w1") simp
    show ?thesis
    proof (cases r)
      case (Inl e)
      with train [of config "tr @ [OpenRead cpath]"] run
      have "quiet_from fs out (tr @ [OpenRead cpath]) w'"
        by (simp add: wp_def)
      then have "quiet_from fs out tr w'"
        by (rule quiet_from_extend) simp
      with Some config run Inl show ?thesis
        by (simp add: wp_def io_bind_def open_read_def io_of_def loads_def)
    next
      case (Inr v)
      with train [of config "tr @ [OpenRead cpath]"] run
      have A and w: "wrote env od fs out (tr @ [OpenRead cpath]) v w'"
        by (simp_all add: wp_def)
      from w obtain pre where pre: "\<not> list_ex is_output pre"
        and tr': "trace w' = tr @ (OpenRead cpath # pre) @
           [WriteFile (path_join od ''training_metrics.json'') (json_dumps env (Some 2) v)]"
        by (auto simp: wrote_def)
      have "reported env od fs out tr v (OpenRead cpath # pre)
          (w'\<lparr>stdout := stdout w' @ [''METRICS: '' @ json_dumps env None v],
              trace := trace w' @ [Print (''METRICS: '' @ json_dumps env None v)]\<rparr>)"
        using w pre tr' by (simp add: reported_def wrote_def)
      with \<open>A\<close> Some config run Inr show ?thesis
        unfolding wp_def io_bind_def open_read_def io_of_def loads_def print_line_def
          io_return_def
        by auto
    qed
  qed
qed

lemma pytorch_main_wp:
  "wp (pytorch_main env a) (\<lambda>e. quiet_from fs out tr)
     (\<lambda>rc w'. rc = 0 \<and> fs (arg_train_data a) \<noteq> None \<and>
        (\<exists>v pre. reported env (arg_output_dir a) fs out tr v pre w'))
     \<lparr>files = fs, stdout = out, trace = tr\<rparr>"
  unfolding pytorch_main_def by (rule main_wp) (rule pytorch_train_model_summary)

lemma tensorflow_main_wp:
  "wp (tensorflow_main env a) (\<lambda>e. quiet_from fs out tr)
     (\<lambda>rc w'. rc = 0 \<and> fs (arg_train_data a) \<noteq> None \<and>
        (\<exists>v pre. reported env (arg_output_dir a) fs out tr v pre w'))
     \<lparr>files = fs, stdout = out, trace = tr\<rparr>"
  unfolding tensorflow_main_def by (rule main_wp) (rule tensorflow_train_model_summary)

lemma quiet_no_print: "\<not> list_ex is_output evs \<Longrightarrow> filter is_print evs = []"
proof (induction evs)
  case Nil
  then show ?case by simp
next
  case (Cons ev evs)
  then show ?case by (cases ev) auto
qed

lemma quiet_from_aborted:
  "quiet_from (files w) (stdout w) (trace w) w' \<Longrightarrow> aborted_cleanly w w'"
  by (auto simp: quiet_from_def aborted_cleanly_def run_events_def)

lemma reported_printed_once:
  assumes "reported env od (files w) (stdout w) (trace w) v pre w'"
  shows "printed_once env w w'" and "file_then_line env od w w'"
proof -
  from assms have ev: "run_events w w' =
      pre @ [WriteFile (path_join od ''training_metrics.json'') (json_dumps env (Some 2) v),
        Print (''METRICS: '' @ json_dumps env None v)]"
    and q: "\<not> list_ex is_output pre"
    and out: "stdout w' = stdout w @ [''METRICS: '' @ json_dumps env None v]"
    and fs: "files w' (path_join od ''training_metrics.json'') = Some (json_dumps env (Some 2) v)"
    by (simp_all add: reported_def run_events_def)
  from ev q out show "printed_once env w w'"
    unfolding printed_once_def by (intro exI [of _ v]) (simp add: quiet_no_print)
  from ev q out fs show "file_then_line env od w w'"
    unfolding file_then_line_def by blast
qed

lemma pytorch_main_outcome:
  assumes "pytorch_main env a w = (r, w')"
  shows "case r of
      Inl e \<Rightarrow> quiet_from (files w) (stdout w) (trace w) w'
    | Inr rc \<Rightarrow> rc = 0 \<and> files w (arg_train_data a) \<noteq> None \<and>
        (\<exists>v pre. reported env (arg_output_dir a) (files w) (stdout w) (trace w) v pre w')"
  by (rule wp_outcome [OF assms pytorch_main_wp])

lemma tensorflow_main_outcome:
  assumes "tensorflow_main env a w = (r, w')"
  shows "case r of
      Inl e \<Rightarrow> quiet_from (files w) (stdout w) (trace w) w'
    | Inr rc \<Rightarrow> rc = 0 \<and> files w (arg_train_data a) \<noteq> None \<and>
        (\<exists>v pre. reported env (arg_output_dir a) (files w) (stdout w) (trace w) v pre w')"
  by (rule wp_outcome [OF assms tensorflow_main_wp])

text \<open>What the exit status of a script says about its run.\<close>

lemma script_contract:
  assumes out: "\<And>r w'. run w = (r, w') \<Longrightarrow> (case r of
      Inl e \<Rightarrow> quiet_from (files w) (stdout w) (trace w) w'
    | Inr rc \<Rightarrow> rc = 0 \<and> files w tp \<noteq> None \<and>
        (\<exists>v pre. reported env od (files w) (stdout w) (trace w) v pre w'))"
    and script: "(case run w of (r, w') \<Rightarrow> (exit_status r, w')) = (status, w')"
  shows "(status = 0 \<or> status = 1) \<and>
    ((\<exists>e. fst (run w) = Inl e) = (status = 1)) \<and>
    (files w tp = None \<longrightarrow> status = 1) \<and>
    (status = 1 \<longrightarrow> aborted_cleanly w w') \<and>
    (status = 0 \<longrightarrow> printed_once env w w' \<and> file_then_line env od w w')"
proof -
  obtain r where run: "run w = (r, w')" and status: "status = exit_status r"
    using script by (cases "run w") auto
  show ?thesis
  proof (cases r)
    case (Inl e)
    with out [OF run] have "aborted_cleanly w w'"
      by (simp add: quiet_from_aborted)
    with Inl run status show ?thesis
      by (simp add: exit_status_def)
  next
    case (Inr rc)
    with out [OF run] obtain v pre where "rc = 0" "files w tp \<noteq> None"
      "reported env od (files w) (stdout w) (trace w) v pre w'"
      by auto
    with Inr run status reported_printed_once [of env od w v pre w'] show ?thesis
      by (simp add: exit_status_def)
  qed
qed

section \<open>The example runs\<close>

text \<open>The runs of the examples, computed step by step with the rules above.\<close>

lemma wp_error:
  "wp m (\<lambda>e w'. e = a \<and> w' = W) (\<lambda>x w'. False) w \<Longrightarrow> m w = (Inl a, W)"
  by (auto simp: wp_def split: prod.splits sum.splits)

lemma wp_result:
  "wp m (\<lambda>e w'. False) (\<lambda>x w'. x = a \<and> w' = W) w \<Longrightarrow> m w = (Inr a, W)"
  by (auto simp: wp_def split: prod.splits sum.splits)

lemmas ex_eval =
  wp_all loads_def parse_data_def endswith_def dataset_len_def train_metrics_def dict_get_def
  path_join_def ex_torch_env_def ex_tf_env_def ex_loads_def ex_files_def ex_record_ab_def
  ex_record_cd_def ex_metrics_def ex_metrics_val_def

lemma ex_train_plain:
  "pytorch_train_model ex_torch_env ''t5-small'' ''train.json'' None ''out'' (JObject [])
     ex_world =
     (Inr ex_metrics,
      \<lparr>files = ex_files(''out/training_metrics.json'' \<mapsto> ex_dumps (Some 2) ex_metrics),
       stdout = [],
       trace =
         [TokenizerFromPretrained ''t5-small'', ModelFromPretrained ''t5-small'',
          OpenRead ''train.json'', TrainerTrain (pytorch_training_args ''out'' [] False) [],
          TrainerSaveModel ''out'', TokenizerSavePretrained ''out'',
          WriteFile ''out/training_metrics.json'' (ex_dumps (Some 2) ex_metrics)]\<rparr>)"
  apply (rule wp_result)
  unfolding pytorch_train_model_def pytorch_evaluate_def ex_world_def
  apply (simp add: ex_eval)
  done

lemma ex_train_val:
  "pytorch_train_model ex_torch_env ''t5-small'' ''train.json'' (Some ''val.json'') ''out''
     (JObject []) ex_world =
     (Inr ex_metrics_val,
      \<lparr>files = ex_files(''out/training_metrics.json'' \<mapsto> ex_dumps (Some 2) ex_metrics_val),
       stdout = [],
       trace =
         [TokenizerFromPretrained ''t5-small'', ModelFromPretrained ''t5-small'',
          OpenRead ''train.json'', OpenRead ''val.json'',
          TrainerTrain (pytorch_training_args ''out'' [] True) [],
          TrainerSaveModel ''out'', TokenizerSavePretrained ''out'', TrainerEvaluate,
          WriteFile ''out/training_metrics.json'' (ex_dumps (Some 2) ex_metrics_val)]\<rparr>)"
  apply (rule wp_result)
  unfolding pytorch_train_model_def pytorch_evaluate_def ex_world_def
  apply (simp add: ex_eval)
  done

lemma ex_train_empty_val:
  "pytorch_train_model ex_torch_env ''t5-small'' ''train.json'' (Some ''empty.json'') ''out''
     (JObject []) ex_world =
     (Inr ex_metrics,
      \<lparr>files = ex_files(''out/training_metrics.json'' \<mapsto> ex_dumps (Some 2) ex_metrics),
       stdout = [],
       trace =
         [TokenizerFromPretrained ''t5-small'', ModelFromPretrained ''t5-small'',
          OpenRead ''train.json'', OpenRead ''empty.json'',
          TrainerTrain (pytorch_training_args ''out'' [] False) [],
          TrainerSaveModel ''out'', TokenizerSavePretrained ''out'',
          WriteFile ''out/training_metrics.json'' (ex_dumps (Some 2) ex_metrics)]\<rparr>)"
  apply (rule wp_result)
  unfolding pytorch_train_model_def pytorch_evaluate_def ex_world_def
  apply (simp add: ex_eval)
  done

lemma ex_main_plain:
  "pytorch_main ex_torch_env ex_args ex_world =
     (Inr 0,
      \<lparr>files = ex_files(''out/training_metrics.json'' \<mapsto> ex_dumps (Some 2) ex_metrics),
       stdout = [''METRICS: '' @ ex_dumps None ex_metrics],
       trace =
         [OpenRead ''config.json'', TokenizerFromPretrained ''t5-small'',
          ModelFromPretrained ''t5-small'', OpenRead ''train.json'',
          TrainerTrain (pytorch_training_args ''out'' [] False) [],
          TrainerSaveModel ''out'', TokenizerSavePretrained ''out'',
          WriteFile ''out/training_metrics.json'' (ex_dumps (Some 2) ex_metrics),
          Print (''METRICS: '' @ ex_dumps None ex_metrics)]\<rparr>)"
  apply (rule wp_result)
  unfolding pytorch_main_def pytorch_train_model_def pytorch_evaluate_def ex_world_def
  apply (simp add: ex_eval ex_args_def)
  done


lemma ex_tf_main:
  "tensorflow_main ex_tf_env ex_tf_args ex_world =
     (Inl (LibraryError ''ValueError''),
      \<lparr>files = ex_files, stdout = [],
       trace =
         [OpenRead ''config.json'', OpenRead ''train.json'',
          CreateModel (JInt 10000) (JInt 256) (JInt 512),
          ModelCompile (JFloat (1 / 1000)), ModelFit (tensorflow_fit_args ''out'' [])]\<rparr>)"
  apply (rule wp_error)
  unfolding tensorflow_main_def tensorflow_train_model_def ex_world_def
  apply (simp add: ex_eval ex_tf_args_def tensorflow_fit_args_def)
  done

lemma ex_tf_env_needs_data: "keras_fit_needs_data ex_tf_env"
  by (simp add: keras_fit_needs_data_def ex_tf_env_def)

lemma ex_val_nonempty:
  "val_nonempty ex_torch_env (Some ''val.json'') ex_files"
  "\<not> val_nonempty ex_torch_env (Some ''empty.json'') ex_files"
  "\<not> val_nonempty ex_torch_env None ex_files"
  by (simp_all add: val_nonempty_def parse_data_def endswith_def loads_def ex_torch_env_def
      ex_loads_def ex_files_def)

lemma ex_main_val:
  "pytorch_main ex_torch_env ex_args_val ex_world =
     (Inr 0,
      \<lparr>files = ex_files(''out/training_metrics.json'' \<mapsto> ex_dumps (Some 2) ex_metrics_val),
       stdout = [''METRICS: '' @ ex_dumps None ex_metrics_val],
       trace =
         [OpenRead ''config.json'', TokenizerFromPretrained ''t5-small'',
          ModelFromPretrained ''t5-small'', OpenRead ''train.json'', OpenRead ''val.json'',
          TrainerTrain (pytorch_training_args ''out'' [] True) [],
          TrainerSaveModel ''out'', TokenizerSavePretrained ''out'', TrainerEvaluate,
          WriteFile ''out/training_metrics.json'' (ex_dumps (Some 2) ex_metrics_val),
          Print (''METRICS: '' @ ex_dumps None ex_metrics_val)]\<rparr>)"
  apply (rule wp_result)
  unfolding pytorch_main_def pytorch_train_model_def pytorch_evaluate_def ex_world_def
  apply (simp add: ex_eval ex_args_def ex_args_val_def)
  done

section \<open>Runs from any world\<close>

lemma pytorch_train_model_outcome:
  assumes "pytorch_train_model env mn tp vp od config w = (Inr v, w')"
  shows "dict_keys v =
      [''train_loss'', ''train_runtime'', ''train_samples_per_second'', ''epoch''] @
      opt (val_nonempty env vp (files w)) [''eval_loss'']"
    and "\<exists>cfg. config = JObject cfg \<and>
      run_events w w' =
        [TokenizerFromPretrained mn, ModelFromPretrained mn, OpenRead tp] @
        val_reads vp (files w) @
        [TrainerTrain (pytorch_training_args od cfg (val_nonempty env vp (files w))) [],
         TrainerSaveModel od, TokenizerSavePretrained od] @
        opt (val_nonempty env vp (files w)) [TrainerEvaluate] @
        [WriteFile (path_join od ''training_metrics.json'') (json_dumps env (Some 2) v)]"
  using wp_outcome [OF assms pytorch_train_model_wp]
  by (auto simp: run_events_def)

lemma tensorflow_train_model_outcome:
  assumes "tensorflow_train_model env tp vp od config w = (Inr v, w')"
  shows "dict_keys v =
      [''final_train_loss'', ''final_train_accuracy'', ''epochs_trained''] @
      opt (val_nonempty env vp (files w)) [''final_val_loss'', ''final_val_accuracy'']"
  using wp_outcome [OF assms tensorflow_train_model_wp]
  by auto

lemma pytorch_training_started:
  assumes "pytorch_train_model env mn tp vp od config w = (r, w')"
    and "TrainerTrain ta cbs \<in> set (run_events w w')"
  shows "cbs = []"
    and "\<exists>cfg. config = JObject cfg \<and>
      ta = pytorch_training_args od cfg (val_nonempty env vp (files w))"
  using wp_outcome [OF assms(1) pytorch_training_started_wp] assms(2)
  by (cases r; auto simp: run_events_def)+

lemma tensorflow_fit_started:
  assumes "tensorflow_train_model env tp vp od config w = (r, w')"
    and "ModelFit fa \<in> set (run_events w w')"
  shows "\<exists>cfg. config = JObject cfg \<and> fa = tensorflow_fit_args od cfg"
  using wp_outcome [OF assms(1) tensorflow_fit_started_wp] assms(2)
  by (cases r) (auto simp: run_events_def)

lemma tensorflow_train_model_never_returns:
  assumes "keras_fit_needs_data env"
    and "tensorflow_train_model env tp vp od config w = (r, w')"
  shows "\<exists>e. r = Inl e"
  using wp_outcome [OF assms(2) tensorflow_train_model_raises_wp [OF assms(1)]]
  by (cases r) simp_all

section \<open>Loading\<close>

lemma file_lines_concat: "concat (file_lines cur t) = cur @ t"
  by (induction t arbitrary: cur) auto

lemma file_lines_pieces:
  assumes "CHR 0x0A \<notin> set cur"
  shows "\<forall>l\<in>set (file_lines cur t). l \<noteq> [] \<and> CHR 0x0A \<notin> set (butlast l)"
  using assms
proof (induction t arbitrary: cur)
  case Nil
  then show ?case by (auto dest: in_set_butlastD)
next
  case (Cons c cs)
  show ?case
  proof (cases "c = CHR 0x0A")
    case True
    with Cons.prems Cons.IH [of "[]"] show ?thesis by simp
  next
    case False
    with Cons.prems Cons.IH [of "cur @ [c]"] show ?thesis by simp
  qed
qed

lemma file_lines_ends:
  "\<forall>l\<in>set (butlast (file_lines cur t)). last l = CHR 0x0A"
proof (induction t arbitrary: cur)
  case Nil
  then show ?case by simp
next
  case (Cons c cs)
  show ?case
  proof (cases "c = CHR 0x0A")
    case True
    with Cons.IH [of "[]"] show ?thesis by simp
  next
    case False
    with Cons.IH [of "cur @ [c]"] show ?thesis by simp
  qed
qed

lemma loads_lines_map:
  "loads_lines env ls = Inr vs \<longleftrightarrow> map (json_loads env) ls = map Some vs"
proof (induction ls arbitrary: vs)
  case Nil
  then show ?case by auto
next
  case (Cons l ls)
  show ?case
  proof (cases "json_loads env l")
    case None
    then show ?thesis by (auto simp: loads_def)
  next
    case (Some v)
    with Cons show ?thesis
      by (cases vs; cases "loads_lines env ls") (auto simp: loads_def)
  qed
qed

lemma parse_data_Inr:
  "parse_data env p t = Inr d \<longleftrightarrow>
     (if endswith p ''.json'' then json_loads env t = Some d
      else \<exists>vs. d = JArray vs \<and> map (json_loads env) (file_lines [] t) = map Some vs)"
proof (cases "endswith p ''.json''")
  case True
  then show ?thesis
    by (auto simp: parse_data_def loads_def split: option.splits)
next
  case False
  then show ?thesis
    using loads_lines_map [of env "file_lines [] t"]
    by (cases "loads_lines env (file_lines [] t)") (auto simp: parse_data_def)
qed

lemma load_data_Inr:
  assumes "load_data env p w = (Inr d, w')"
  shows "\<exists>t. files w p = Some t \<and> parse_data env p t = Inr d"
  using assms unfolding load_data_def io_bind_def open_read_def io_of_def io_return_def
  by (auto split: option.splits sum.splits)

lemma HumanizationDataset_init_Inr:
  assumes "HumanizationDataset_init env p tk L w = (Inr ds, w')"
  shows "\<exists>t. files w p = Some t \<and> parse_data env p t = Inr (ds_data ds)"
  using assms
  unfolding HumanizationDataset_init_def io_bind_def open_read_def io_of_def io_return_def
  by (auto split: option.splits sum.splits)

lemma HumanizationDataset_init_loads:
  assumes "files w p = Some t" and "parse_data env p t = Inr d" and "py_len d = Inr n"
  shows "fst (HumanizationDataset_init env p tk L w) =
    Inr \<lparr>ds_tokenizer = tk, ds_max_length = L, ds_data = d\<rparr>"
  using assms
  unfolding HumanizationDataset_init_def io_bind_def open_read_def io_of_def io_return_def
  by simp

lemmas ex_defs =
  ex_world_def ex_files_def ex_loads_def ex_torch_env_def ex_tf_env_def ex_tokenizer_def
  ex_args_def ex_args_val_def ex_args_empty_val_def ex_args_missing_def ex_tf_args_def
  ex_record_ab_def ex_record_cd_def

lemmas io_defs =
  io_bind_def io_return_def io_of_def io_event_def io_check_def open_read_def write_file_def
  print_line_def

text \<open>
  Claim C5. A path that ends in \<^verbatim>\<open>.json\<close> is parsed as one JSON document, the whole
  text of the file; any other path is parsed line by line, each line a JSON value of
  its own, and the result is the list of these values in the order of the lines, as
  long as the file has lines. This holds for \<^verbatim>\<open>load_data\<close> of the TensorFlow
  template and for the data of a \<^verbatim>\<open>HumanizationDataset\<close> of the PyTorch one.
  The lines of a text are what iterating over the file yields: put together they
  are the text, none is empty, a newline is only ever the last character of a line,
  and every line but the last ends with one.
\<close>

theorem load_format_by_extension:
  "(load_data env p w = (Inr d, w') \<longrightarrow>
      (\<exists>t. files w p = Some t \<and>
         (if endswith p ''.json'' then json_loads env t = Some d
          else \<exists>vs. d = JArray vs \<and>
                 map (json_loads env) (file_lines [] t) = map Some vs))) \<and>
   (HumanizationDataset_init env p tk L w = (Inr ds, w'') \<longrightarrow>
      (\<exists>t. files w p = Some t \<and>
         (if endswith p ''.json'' then json_loads env t = Some (ds_data ds)
          else \<exists>vs. ds_data ds = JArray vs \<and>
                 map (json_loads env) (file_lines [] t) = map Some vs))) \<and>
   concat (file_lines [] t0) = t0 \<and>
   (\<forall>l\<in>set (file_lines [] t0). l \<noteq> [] \<and> CHR 0x0A \<notin> set (butlast l)) \<and>
   (\<forall>l\<in>set (butlast (file_lines [] t0)). last l = CHR 0x0A)"
proof (intro conjI)
  show "load_data env p w = (Inr d, w') \<longrightarrow>
      (\<exists>t. files w p = Some t \<and>
         (if endswith p ''.json'' then json_loads env t = Some d
          else \<exists>vs. d = JArray vs \<and>
                 map (json_loads env) (file_lines [] t) = map Some vs))"
    using load_data_Inr [of env p w d w'] by (auto simp: parse_data_Inr)
  show "HumanizationDataset_init env p tk L w = (Inr ds, w'') \<longrightarrow>
      (\<exists>t. files w p = Some t \<and>
         (if endswith p ''.json'' then json_loads env t = Some (ds_data ds)
          else \<exists>vs. ds_data ds = JArray vs \<and>
                 map (json_loads env) (file_lines [] t) = map Some vs))"
    using HumanizationDataset_init_Inr [of env p tk L w ds w''] by (auto simp: parse_data_Inr)
  show "concat (file_lines [] t0) = t0"
    by (simp add: file_lines_concat)
  show "\<forall>l\<in>set (file_lines [] t0). l \<noteq> [] \<and> CHR 0x0A \<notin> set (butlast l)"
    by (rule file_lines_pieces) simp
  show "\<forall>l\<in>set (butlast (file_lines [] t0)). last l = CHR 0x0A"
    by (rule file_lines_ends)
qed

theorem load_format_by_extension_witness:
  \<open>fst (load_data ex_torch_env ''train.jsonl'' ex_world) =
     Inr (JArray [ex_record_ab, ex_record_cd]) \<and>
   \<not> endswith ''train.jsonl'' ''.json'' \<and>
   (\<exists>t. files ex_world ''train.jsonl'' = Some t \<and>
      map (json_loads ex_torch_env) (file_lines [] t) = map Some [ex_record_ab, ex_record_cd]) \<and>
   ds_data (projr (fst (HumanizationDataset_init ex_torch_env ''train.json'' ex_tokenizer
     (JInt 512) ex_world))) = JArray [ex_record_ab] \<and>
   endswith ''train.json'' ''.json'' \<and>
   (\<exists>t. files ex_world ''train.json'' = Some t \<and>
      json_loads ex_torch_env t = Some (JArray [ex_record_ab])) \<and>
   file_lines [] (the (ex_files ''train.jsonl'')) =
     [''{"input": "a", "output": "b"}'' @ [CHR 0x0A],
      ''{"input": "c", "output": "d"}'' @ [CHR 0x0A]] \<and>
   concat (file_lines [] (the (ex_files ''train.jsonl''))) = the (ex_files ''train.jsonl'') \<and>
   list_all (\<lambda>l. l \<noteq> [] \<and> CHR 0x0A \<notin> set (butlast l) \<and> last l = CHR 0x0A)
     (file_lines [] (the (ex_files ''train.jsonl'')))\<close>
proof -
  have run1: "load_data ex_torch_env ''train.jsonl'' ex_world =
      (Inr (JArray [ex_record_ab, ex_record_cd]),
       ex_world\<lparr>trace := [OpenRead ''train.jsonl'']\<rparr>)"
    by (simp add: load_data_def io_defs parse_data_def endswith_def loads_def ex_defs)
  have run2: "HumanizationDataset_init ex_torch_env ''train.json'' ex_tokenizer (JInt 512)
      ex_world =
      (Inr \<lparr>ds_tokenizer = ex_tokenizer, ds_max_length = JInt 512,
             ds_data = JArray [ex_record_ab]\<rparr>,
       ex_world\<lparr>trace := [OpenRead ''train.json'']\<rparr>)"
    by (simp add: HumanizationDataset_init_def io_defs parse_data_def endswith_def loads_def
        ex_defs)
  have ext: "\<not> endswith ''train.jsonl'' ''.json''" "endswith ''train.json'' ''.json''"
    by (simp_all add: endswith_def)
  have ls: \<open>file_lines [] (the (ex_files ''train.jsonl'')) =
     [''{"input": "a", "output": "b"}'' @ [CHR 0x0A],
      ''{"input": "c", "output": "d"}'' @ [CHR 0x0A]]\<close>
    by (simp add: ex_files_def)
  note inst1 = load_format_by_extension [of ex_torch_env "''train.jsonl''" ex_world
      "JArray [ex_record_ab, ex_record_cd]" "ex_world\<lparr>trace := [OpenRead ''train.jsonl'']\<rparr>"
      ex_tokenizer "JInt 512" "\<lparr>ds_tokenizer = ex_tokenizer, ds_max_length = JInt 512,
             ds_data = JArray [ex_record_ab]\<rparr>" "ex_world\<lparr>trace := [OpenRead ''train.jsonl'']\<rparr>"
      "the (ex_files ''train.jsonl'')"]
  note inst2 = load_format_by_extension [of ex_torch_env "''train.json''" ex_world
      "JArray [ex_record_ab]" "ex_world\<lparr>trace := [OpenRead ''train.json'']\<rparr>"
      ex_tokenizer "JInt 512" "\<lparr>ds_tokenizer = ex_tokenizer, ds_max_length = JInt 512,
             ds_data = JArray [ex_record_ab]\<rparr>" "ex_world\<lparr>trace := [OpenRead ''train.json'']\<rparr>"
      "[]"]
  from inst1 [THEN conjunct1] run1 ext
  have a: "\<exists>t. files ex_world ''train.jsonl'' = Some t \<and>
      map (json_loads ex_torch_env) (file_lines [] t) = map Some [ex_record_ab, ex_record_cd]"
    by simp
  from inst2 [THEN conjunct2, THEN conjunct1] run2 ext
  have b: "\<exists>t. files ex_world ''train.json'' = Some t \<and>
      json_loads ex_torch_env t = Some (JArray [ex_record_ab])"
    by simp
  from inst1 [THEN conjunct2, THEN conjunct2]
  have c: "concat (file_lines [] (the (ex_files ''train.jsonl''))) =
      the (ex_files ''train.jsonl'')"
    by simp
  have d: "list_all (\<lambda>l. l \<noteq> [] \<and> CHR 0x0A \<notin> set (butlast l) \<and> last l = CHR 0x0A)
     (file_lines [] (the (ex_files ''train.jsonl'')))"
    unfolding ls by simp
  from run1 run2 ext a b ls c d show ?thesis
    by simp
qed

section \<open>Records without a field\<close>

text \<open>
  Claim C2, as the code has it. Loading never looks into a record: a file that
  exists, parses and has a length loads, whatever fields its records have. A record
  without \<^verbatim>\<open>input\<close>, or with \<^verbatim>\<open>input\<close> and without \<^verbatim>\<open>output\<close>, raises a
  \<^verbatim>\<open>KeyError\<close> naming the field when \<^verbatim>\<open>__getitem__\<close> encodes it, which is after
  loading.
\<close>

theorem missing_field_raises_in_getitem:
  "(files w p = Some t \<longrightarrow> parse_data env p t = Inr d \<longrightarrow> py_len d = Inr n \<longrightarrow>
      fst (HumanizationDataset_init env p tk L w) =
        Inr \<lparr>ds_tokenizer = tk, ds_max_length = L, ds_data = d\<rparr>) \<and>
   (py_index (ds_data ds) i = Inr (JObject kvs) \<longrightarrow> map_of kvs ''input'' = None \<longrightarrow>
      getitem ds i = Inl (KeyError ''input'')) \<and>
   (py_index (ds_data ds) i = Inr (JObject kvs) \<longrightarrow> map_of kvs ''input'' \<noteq> None \<longrightarrow>
      map_of kvs ''output'' = None \<longrightarrow> getitem ds i = Inl (KeyError ''output''))"
  using HumanizationDataset_init_loads [of w p t env d n tk L]
  by (auto simp: getitem_def result_bind_def)

theorem missing_field_raises_in_getitem_witness:
  "files ex_world ''partial.json'' = Some (the (ex_files ''partial.json'')) \<and>
   parse_data ex_torch_env ''partial.json'' (the (ex_files ''partial.json'')) =
     Inr (JArray [JObject [(''output'', JString ''b'')]]) \<and>
   py_len (JArray [JObject [(''output'', JString ''b'')]]) = Inr 1 \<and>
   fst (HumanizationDataset_init ex_torch_env ''partial.json'' ex_tokenizer (JInt 512)
     ex_world) =
     Inr \<lparr>ds_tokenizer = ex_tokenizer, ds_max_length = JInt 512,
           ds_data = JArray [JObject [(''output'', JString ''b'')]]\<rparr> \<and>
   getitem \<lparr>ds_tokenizer = ex_tokenizer, ds_max_length = JInt 512,
            ds_data = JArray [JObject [(''output'', JString ''b'')]]\<rparr> 0 =
     Inl (KeyError ''input'') \<and>
   getitem \<lparr>ds_tokenizer = ex_tokenizer, ds_max_length = JInt 512,
            ds_data = JArray [JObject [(''input'', JString ''a'')]]\<rparr> 0 =
     Inl (KeyError ''output'')"
proof -
  have f: "files ex_world ''partial.json'' = Some (the (ex_files ''partial.json''))"
    by (simp add: ex_defs)
  have p: "parse_data ex_torch_env ''partial.json'' (the (ex_files ''partial.json'')) =
     Inr (JArray [JObject [(''output'', JString ''b'')]])"
    by (simp add: parse_data_def endswith_def loads_def ex_defs)
  have l: "py_len (JArray [JObject [(''output'', JString ''b'')]]) = Inr 1"
    by simp
  from f p l
    missing_field_raises_in_getitem [of ex_world "''partial.json''"
      "the (ex_files ''partial.json'')" ex_torch_env
      "JArray [JObject [(''output'', JString ''b'')]]" 1 ex_tokenizer "JInt 512"
      "\<lparr>ds_tokenizer = ex_tokenizer, ds_max_length = JInt 512,
            ds_data = JArray [JObject [(''output'', JString ''b'')]]\<rparr>" 0
      "[(''output'', JString ''b'')]"]
    missing_field_raises_in_getitem [of ex_world "''partial.json''"
      "the (ex_files ''partial.json'')" ex_torch_env
      "JArray [JObject [(''output'', JString ''b'')]]" 1 ex_tokenizer "JInt 512"
      "\<lparr>ds_tokenizer = ex_tokenizer, ds_max_length = JInt 512,
            ds_data = JArray [JObject [(''input'', JString ''a'')]]\<rparr>" 0
      "[(''input'', JString ''a'')]"]
  show ?thesis
    by simp
qed

text \<open>
  Claim C2 as stated fails: the file \<^verbatim>\<open>partial.json\<close> holds one record, which has
  no \<^verbatim>\<open>input\<close> field, and loading it returns the dataset; no error is raised at
  load time.
\<close>

theorem load_accepts_record_without_input:
  "py_item (JObject [(''output'', JString ''b'')]) ''input'' = Inl (KeyError ''input'') \<and>
   HumanizationDataset_init ex_torch_env ''partial.json'' ex_tokenizer (JInt 512) ex_world =
     (Inr \<lparr>ds_tokenizer = ex_tokenizer, ds_max_length = JInt 512,
            ds_data = JArray [JObject [(''output'', JString ''b'')]]\<rparr>,
      ex_world\<lparr>trace := [OpenRead ''partial.json'']\<rparr>)"
  by (simp add: HumanizationDataset_init_def io_defs parse_data_def endswith_def loads_def
      ex_defs)

section \<open>Encoding\<close>

text \<open>What the source relies on from the tokenizer: called on a text with
  \<^verbatim>\<open>max_length = n\<close>, it returns ids and a mask of shape \<open>[1, n]\<close>.\<close>

lemma ex_tokenizer_shapes:
  "\<exists>ids mask. tokenizer_call ex_tokenizer (JString s) (JInt (int n)) =
       Inr \<lparr>be_input_ids = Tensor2 [ids], be_attention_mask = Tensor2 [mask]\<rparr> \<and>
     length ids = n \<and> length mask = n"
  by (auto simp: ex_tokenizer_def ex_tokenizer_call_def ex_ids_def)

lemma squeeze_row: "length row \<noteq> 1 \<Longrightarrow> squeeze (Tensor2 [row]) = Tensor1 row"
proof (cases row)
  case Nil
  then show ?thesis by simp
next
  case (Cons x xs)
  assume "length row \<noteq> 1"
  with Cons show ?thesis by (cases xs) auto
qed

lemma squeeze_single: "length row = 1 \<Longrightarrow> shape (squeeze (Tensor2 [row])) = []"
  by (cases row) auto

text \<open>With a tokenizer that returns the shape \<open>[1, n]\<close>, an example of two texts is
  encoded into three sequences of length \<open>n\<close> for every \<open>n\<close> but 1; for \<open>n = 1\<close>
  the three tensors have no dimension left.\<close>

lemma getitem_shapes:
  assumes tk: "\<And>s. \<exists>ids mask. tokenizer_call tk (JString s) (JInt (int n)) =
       Inr \<lparr>be_input_ids = Tensor2 [ids], be_attention_mask = Tensor2 [mask]\<rparr> \<and>
     length ids = n \<and> length mask = n"
    and item: "py_index data i = Inr (JObject kvs)"
    and fields: "map_of kvs ''input'' = Some (JString a)" "map_of kvs ''output'' = Some (JString b)"
  shows "\<exists>e. getitem \<lparr>ds_tokenizer = tk, ds_max_length = JInt (int n), ds_data = data\<rparr> i = Inr e \<and>
    shape (ex_input_ids e) = (if n = 1 then [] else [n]) \<and>
    shape (ex_attention_mask e) = (if n = 1 then [] else [n]) \<and>
    shape (ex_labels e) = (if n = 1 then [] else [n])"
proof -
  from tk [of a] obtain ids mask where a: "tokenizer_call tk (JString a) (JInt (int n)) =
       Inr \<lparr>be_input_ids = Tensor2 [ids], be_attention_mask = Tensor2 [mask]\<rparr>"
    "length ids = n" "length mask = n"
    by blast
  from tk [of b] obtain ids' mask' where b: "tokenizer_call tk (JString b) (JInt (int n)) =
       Inr \<lparr>be_input_ids = Tensor2 [ids'], be_attention_mask = Tensor2 [mask']\<rparr>"
    "length ids' = n" "length mask' = n"
    by blast
  show ?thesis
    using item fields a b
    by (simp add: getitem_def result_bind_def squeeze_row squeeze_single)
qed

text \<open>
  Claim C6 at \<^verbatim>\<open>max_length = 1\<close>: the record \<^verbatim>\<open>{"input": "a", "output": "b"}\<close> is
  encoded into three tensors without a dimension, not into three sequences of length
  1, because \<^verbatim>\<open>squeeze()\<close> removes the dimension of size one that
  \<^verbatim>\<open>max_length\<close> gave as well as the batch dimension.
\<close>

theorem getitem_max_length_one_has_no_length:
  "getitem \<lparr>ds_tokenizer = ex_tokenizer, ds_max_length = JInt 1,
            ds_data = JArray [ex_record_ab]\<rparr> 0 =
     Inr \<lparr>ex_input_ids = Tensor0 1, ex_attention_mask = Tensor0 1, ex_labels = Tensor0 1\<rparr> \<and>
   shape (Tensor0 1) = [] \<and>
   tokenizer_call ex_tokenizer (JString ''a'') (JInt 1) =
     Inr \<lparr>be_input_ids = Tensor2 [[1]], be_attention_mask = Tensor2 [[1]]\<rparr>"
  by (simp add: getitem_def result_bind_def ex_tokenizer_def ex_tokenizer_call_def ex_ids_def
      ex_record_ab_def)

section \<open>The process boundary\<close>

text \<open>
  Claim C1. Started with a command line that parses, each script ends with status 0
  or 1, and with status 1 exactly when \<^verbatim>\<open>main\<close> raised. When the training data path does not exist the status is 1.
  With status 1 no file has changed (so no \<^verbatim>\<open>training_metrics.json\<close> was
  written), nothing was printed, and the run wrote and printed nothing on the way.
  With status 0 exactly one line was printed, the \<^verbatim>\<open>METRICS:\<close> line of a record.
  Output that the libraries print themselves is not part of the model.
\<close>

theorem abort_reports_nothing:
  "(pytorch_script env a w = (status, w') \<longrightarrow>
      (status = 0 \<or> status = 1) \<and>
      ((\<exists>e. fst (pytorch_main env a w) = Inl e) = (status = 1)) \<and>
      (files w (arg_train_data a) = None \<longrightarrow> status = 1) \<and>
      (status = 1 \<longrightarrow> aborted_cleanly w w') \<and>
      (status = 0 \<longrightarrow> printed_once env w w')) \<and>
   (tensorflow_script fenv fa w = (fstatus, fw') \<longrightarrow>
      (fstatus = 0 \<or> fstatus = 1) \<and>
      ((\<exists>e. fst (tensorflow_main fenv fa w) = Inl e) = (fstatus = 1)) \<and>
      (files w (arg_train_data fa) = None \<longrightarrow> fstatus = 1) \<and>
      (fstatus = 1 \<longrightarrow> aborted_cleanly w fw') \<and>
      (fstatus = 0 \<longrightarrow> printed_once fenv w fw'))"
  using script_contract [of "pytorch_main env a" w "arg_train_data a" env "arg_output_dir a"
      status w', OF pytorch_main_outcome]
    script_contract [of "tensorflow_main fenv fa" w "arg_train_data fa" fenv "arg_output_dir fa"
      fstatus fw', OF tensorflow_main_outcome]
  unfolding pytorch_script_def tensorflow_script_def
  by blast

theorem abort_reports_nothing_witness:
  "files ex_world (arg_train_data ex_args_missing) = None \<and>
   fst (pytorch_script ex_torch_env ex_args_missing ex_world) = 1 \<and>
   aborted_cleanly ex_world (snd (pytorch_script ex_torch_env ex_args_missing ex_world)) \<and>
   fst (pytorch_script ex_torch_env ex_args ex_world) = 0 \<and>
   printed_once ex_torch_env ex_world (snd (pytorch_script ex_torch_env ex_args ex_world)) \<and>
   stdout (snd (pytorch_script ex_torch_env ex_args ex_world)) =
     [''METRICS: '' @ ex_dumps None ex_metrics] \<and>
   fst (tensorflow_main ex_tf_env ex_tf_args ex_world) = Inl (LibraryError ''ValueError'') \<and>
   fst (tensorflow_script ex_tf_env ex_tf_args ex_world) = 1 \<and>
   aborted_cleanly ex_world (snd (tensorflow_script ex_tf_env ex_tf_args ex_world))"
proof -
  have missing: "files ex_world (arg_train_data ex_args_missing) = None"
    by (simp add: ex_defs)
  have ok: "pytorch_script ex_torch_env ex_args ex_world =
      (0, snd (pytorch_main ex_torch_env ex_args ex_world))"
    by (simp add: pytorch_script_def exit_status_def ex_main_plain)
  have tf_raises: "fst (tensorflow_main ex_tf_env ex_tf_args ex_world) =
      Inl (LibraryError ''ValueError'')"
    by (simp add: ex_tf_main)
  have tf_failed: "tensorflow_script ex_tf_env ex_tf_args ex_world =
      (1, snd (tensorflow_main ex_tf_env ex_tf_args ex_world))"
    by (simp add: tensorflow_script_def exit_status_def ex_tf_main)
  have out: "stdout (snd (pytorch_main ex_torch_env ex_args ex_world)) =
      [''METRICS: '' @ ex_dumps None ex_metrics]"
    by (simp add: ex_main_plain)
  from abort_reports_nothing [of ex_torch_env ex_args_missing ex_world
      "fst (pytorch_script ex_torch_env ex_args_missing ex_world)"
      "snd (pytorch_script ex_torch_env ex_args_missing ex_world)"
      ex_tf_env ex_tf_args 1 "snd (tensorflow_main ex_tf_env ex_tf_args ex_world)"]
    abort_reports_nothing [of ex_torch_env ex_args ex_world 0
      "snd (pytorch_main ex_torch_env ex_args ex_world)"
      ex_tf_env ex_tf_args 1 "snd (tensorflow_main ex_tf_env ex_tf_args ex_world)"]
    missing ok tf_raises tf_failed out
  show ?thesis
    by simp
qed

text \<open>
  Claim C10. In every run of a script that ends well, the last two effects are the
  writing of \<^verbatim>\<open>training_metrics.json\<close> in the output directory and then the
  printing of the \<^verbatim>\<open>METRICS:\<close> line, both of the same record; nothing was written
  or printed before, and the file holds the record when the run ends.
\<close>

theorem metrics_file_before_metrics_line:
  "(pytorch_main env a w = (Inr rc, w') \<longrightarrow> file_then_line env (arg_output_dir a) w w') \<and>
   (tensorflow_main fenv fa w = (Inr frc, fw') \<longrightarrow>
      file_then_line fenv (arg_output_dir fa) w fw')"
  using pytorch_main_outcome [of env a w "Inr rc" w']
    tensorflow_main_outcome [of fenv fa w "Inr frc" fw']
  by (auto intro: reported_printed_once(2))

theorem metrics_file_before_metrics_line_witness:
  "fst (pytorch_main ex_torch_env ex_args ex_world) = Inr 0 \<and>
   file_then_line ex_torch_env ''out'' ex_world
     (snd (pytorch_main ex_torch_env ex_args ex_world)) \<and>
   drop 7 (run_events ex_world (snd (pytorch_main ex_torch_env ex_args ex_world))) =
     [WriteFile ''out/training_metrics.json'' (ex_dumps (Some 2) ex_metrics),
      Print (''METRICS: '' @ ex_dumps None ex_metrics)] \<and>
   fst (pytorch_main ex_torch_env ex_args_val ex_world) = Inr 0 \<and>
   file_then_line ex_torch_env ''out'' ex_world
     (snd (pytorch_main ex_torch_env ex_args_val ex_world)) \<and>
   drop 9 (run_events ex_world (snd (pytorch_main ex_torch_env ex_args_val ex_world))) =
     [WriteFile ''out/training_metrics.json'' (ex_dumps (Some 2) ex_metrics_val),
      Print (''METRICS: '' @ ex_dumps None ex_metrics_val)]"
proof -
  have run: "pytorch_main ex_torch_env ex_args ex_world =
      (Inr 0, snd (pytorch_main ex_torch_env ex_args ex_world))"
    by (simp add: ex_main_plain)
  have run_val: "pytorch_main ex_torch_env ex_args_val ex_world =
      (Inr 0, snd (pytorch_main ex_torch_env ex_args_val ex_world))"
    by (simp add: ex_main_val)
  have res: "fst (pytorch_main ex_torch_env ex_args ex_world) = Inr 0"
    "fst (pytorch_main ex_torch_env ex_args_val ex_world) = Inr 0"
    by (simp_all add: ex_main_plain ex_main_val)
  have dirs: "arg_output_dir ex_args = ''out''" "arg_output_dir ex_args_val = ''out''"
    by (simp_all add: ex_defs)
  have evs: "drop 7 (run_events ex_world (snd (pytorch_main ex_torch_env ex_args ex_world))) =
     [WriteFile ''out/training_metrics.json'' (ex_dumps (Some 2) ex_metrics),
      Print (''METRICS: '' @ ex_dumps None ex_metrics)]"
    "drop 9 (run_events ex_world (snd (pytorch_main ex_torch_env ex_args_val ex_world))) =
     [WriteFile ''out/training_metrics.json'' (ex_dumps (Some 2) ex_metrics_val),
      Print (''METRICS: '' @ ex_dumps None ex_metrics_val)]"
    unfolding ex_main_plain ex_main_val by (simp_all add: run_events_def ex_world_def)
  note inst = metrics_file_before_metrics_line [of ex_torch_env ex_args ex_world 0
      "snd (pytorch_main ex_torch_env ex_args ex_world)" ex_tf_env ex_tf_args 0 ex_world]
  note inst_val = metrics_file_before_metrics_line [of ex_torch_env ex_args_val ex_world 0
      "snd (pytorch_main ex_torch_env ex_args_val ex_world)" ex_tf_env ex_tf_args 0 ex_world]
  from inst [THEN conjunct1, rule_format, OF run]
  have a: "file_then_line ex_torch_env ''out'' ex_world
     (snd (pytorch_main ex_torch_env ex_args ex_world))"
    by (simp add: dirs)
  from inst_val [THEN conjunct1, rule_format, OF run_val]
  have b: "file_then_line ex_torch_env ''out'' ex_world
     (snd (pytorch_main ex_torch_env ex_args_val ex_world))"
    by (simp add: dirs)
  from res a b evs show ?thesis
    by blast
qed

section \<open>The order of the run\<close>

text \<open>
  Claim C8, as the code has it. In every call of the PyTorch \<^verbatim>\<open>train_model\<close> that
  returns, the effects are, in this order: loading the tokenizer, the model and the
  data, training, saving the model and then the tokenizer into the output directory,
  the evaluation pass (exactly when validation data with at least one element was
  loaded), and writing the metrics file. The save comes right after training and
  before the evaluation; the evaluation and the metrics file follow it.
\<close>

theorem save_follows_training:
  assumes "pytorch_train_model env mn tp vp od config w = (Inr v, w')"
  shows "\<exists>ta. run_events w w' =
      [TokenizerFromPretrained mn, ModelFromPretrained mn, OpenRead tp] @
      val_reads vp (files w) @
      [TrainerTrain ta [], TrainerSaveModel od, TokenizerSavePretrained od] @
      opt (val_nonempty env vp (files w)) [TrainerEvaluate] @
      [WriteFile (path_join od ''training_metrics.json'') (json_dumps env (Some 2) v)]"
  using pytorch_train_model_outcome(2) [OF assms] by blast

theorem save_follows_training_witness:
  "pytorch_train_model ex_torch_env ''t5-small'' ''train.json'' (Some ''val.json'') ''out''
     (JObject []) ex_world =
     (Inr ex_metrics_val,
      snd (pytorch_train_model ex_torch_env ''t5-small'' ''train.json'' (Some ''val.json'')
        ''out'' (JObject []) ex_world)) \<and>
   val_nonempty ex_torch_env (Some ''val.json'') (files ex_world) \<and>
   (\<exists>ta. run_events ex_world
      (snd (pytorch_train_model ex_torch_env ''t5-small'' ''train.json'' (Some ''val.json'')
        ''out'' (JObject []) ex_world)) =
      [TokenizerFromPretrained ''t5-small'', ModelFromPretrained ''t5-small'',
       OpenRead ''train.json'', OpenRead ''val.json'', TrainerTrain ta [],
       TrainerSaveModel ''out'', TokenizerSavePretrained ''out'', TrainerEvaluate,
       WriteFile ''out/training_metrics.json'' (ex_dumps (Some 2) ex_metrics_val)])"
proof -
  have run: "pytorch_train_model ex_torch_env ''t5-small'' ''train.json'' (Some ''val.json'')
      ''out'' (JObject []) ex_world =
     (Inr ex_metrics_val,
      snd (pytorch_train_model ex_torch_env ''t5-small'' ''train.json'' (Some ''val.json'')
        ''out'' (JObject []) ex_world))"
    by (simp add: ex_train_val)
  have val: "val_nonempty ex_torch_env (Some ''val.json'') (files ex_world)"
    using ex_val_nonempty(1) by (simp add: ex_world_def)
  have aux: "val_reads (Some ''val.json'') (files ex_world) = [OpenRead ''val.json'']"
    "path_join ''out'' ''training_metrics.json'' = ''out/training_metrics.json''"
    "json_dumps ex_torch_env = ex_dumps"
    by (simp_all add: val_reads_def path_join_def ex_torch_env_def ex_world_def ex_files_def)
  from save_follows_training [OF run]
  have "\<exists>ta. run_events ex_world
      (snd (pytorch_train_model ex_torch_env ''t5-small'' ''train.json'' (Some ''val.json'')
        ''out'' (JObject []) ex_world)) =
      [TokenizerFromPretrained ''t5-small'', ModelFromPretrained ''t5-small'',
       OpenRead ''train.json'', OpenRead ''val.json'', TrainerTrain ta [],
       TrainerSaveModel ''out'', TokenizerSavePretrained ''out'', TrainerEvaluate,
       WriteFile ''out/training_metrics.json'' (ex_dumps (Some 2) ex_metrics_val)]"
    by (simp add: aux val opt_def)
  with run val show ?thesis
    by blast
qed

text \<open>
  Claim C8 as stated fails: in the example run with validation data the model and the
  tokenizer are saved before the evaluation pass, and the evaluation, the metrics
  file and the \<^verbatim>\<open>METRICS:\<close> line all follow the save.
\<close>

theorem save_precedes_evaluation_example:
  "fst (pytorch_main ex_torch_env ex_args_val ex_world) = Inr 0 \<and>
   drop 5 (run_events ex_world (snd (pytorch_main ex_torch_env ex_args_val ex_world))) =
     [TrainerTrain (pytorch_training_args ''out'' [] True) [],
      TrainerSaveModel ''out'', TokenizerSavePretrained ''out'', TrainerEvaluate,
      WriteFile ''out/training_metrics.json'' (ex_dumps (Some 2) ex_metrics_val),
      Print (''METRICS: '' @ ex_dumps None ex_metrics_val)]"
  unfolding ex_main_val by (simp add: run_events_def ex_world_def)

section \<open>The metrics record\<close>

text \<open>The TensorFlow template with the validation file of the examples: both files
  are read, the model is built and compiled, and \<^verbatim>\<open>model.fit\<close>, called without
  data, raises.\<close>

lemma ex_tf_train_val:
  "tensorflow_train_model ex_tf_env ''train.json'' (Some ''val.json'') ''out'' (JObject [])
     ex_world =
     (Inl (LibraryError ''ValueError''),
      \<lparr>files = ex_files, stdout = [],
       trace =
         [OpenRead ''train.json'', OpenRead ''val.json'',
          CreateModel (JInt 10000) (JInt 256) (JInt 512),
          ModelCompile (JFloat (1 / 1000)), ModelFit (tensorflow_fit_args ''out'' [])]\<rparr>)"
  apply (rule wp_error)
  unfolding tensorflow_train_model_def ex_world_def
  apply (simp add: ex_eval tensorflow_fit_args_def)
  done

text \<open>
  Claim C3, as the code has it. The record the PyTorch \<^verbatim>\<open>train_model\<close> returns has
  the keys \<^verbatim>\<open>train_loss\<close>, \<^verbatim>\<open>train_runtime\<close>, \<^verbatim>\<open>train_samples_per_second\<close> and
  \<^verbatim>\<open>epoch\<close>, followed by \<^verbatim>\<open>eval_loss\<close> exactly when the validation path is
  given, not empty and exists and the data loaded from it has at least one element;
  it never has \<^verbatim>\<open>eval_accuracy\<close>. Without a validation path, or with one that
  does not exist, the condition is false. These are all the records there are: the
  TensorFlow \<^verbatim>\<open>train_model\<close> calls \<^verbatim>\<open>model.fit\<close> without data, so with a Keras
  that raises on such a call it raises in every run and returns no record.
\<close>

theorem eval_keys_follow_validation_data:
  "(pytorch_train_model env mn tp vp od config w = (Inr v, w') \<longrightarrow>
      dict_keys v =
        [''train_loss'', ''train_runtime'', ''train_samples_per_second'', ''epoch''] @
        opt (val_nonempty env vp (files w)) [''eval_loss'']) \<and>
   (keras_fit_needs_data fenv \<longrightarrow>
      (\<exists>e. fst (tensorflow_train_model fenv ftp fvp fod fconfig w) = Inl e)) \<and>
   \<not> val_nonempty env None fs \<and>
   (fs p = None \<longrightarrow> \<not> val_nonempty env (Some p) fs)"
proof (intro conjI impI)
  assume "pytorch_train_model env mn tp vp od config w = (Inr v, w')"
  then show "dict_keys v =
        [''train_loss'', ''train_runtime'', ''train_samples_per_second'', ''epoch''] @
        opt (val_nonempty env vp (files w)) [''eval_loss'']"
    by (rule pytorch_train_model_outcome(1))
next
  assume "keras_fit_needs_data fenv"
  then show "\<exists>e. fst (tensorflow_train_model fenv ftp fvp fod fconfig w) = Inl e"
    by (rule tensorflow_train_model_never_returns) (rule surjective_pairing)
next
  show "\<not> val_nonempty env None fs"
    by (simp add: val_nonempty_def)
next
  assume "fs p = None"
  then show "\<not> val_nonempty env (Some p) fs"
    by (simp add: val_nonempty_def)
qed

theorem eval_keys_follow_validation_data_witness:
  "fst (pytorch_train_model ex_torch_env ''t5-small'' ''train.json'' (Some ''val.json'')
     ''out'' (JObject []) ex_world) = Inr ex_metrics_val \<and>
   val_nonempty ex_torch_env (Some ''val.json'') (files ex_world) \<and>
   dict_keys ex_metrics_val =
     [''train_loss'', ''train_runtime'', ''train_samples_per_second'', ''epoch'',
      ''eval_loss''] \<and>
   keras_fit_needs_data ex_tf_env \<and>
   fst (tensorflow_train_model ex_tf_env ''train.json'' (Some ''val.json'') ''out''
     (JObject []) ex_world) = Inl (LibraryError ''ValueError'') \<and>
   files ex_world ''missing.json'' = None \<and>
   \<not> val_nonempty ex_torch_env (Some ''missing.json'') (files ex_world)"
proof -
  let ?w = "snd (pytorch_train_model ex_torch_env ''t5-small'' ''train.json''
      (Some ''val.json'') ''out'' (JObject []) ex_world)"
  have run: "pytorch_train_model ex_torch_env ''t5-small'' ''train.json'' (Some ''val.json'')
      ''out'' (JObject []) ex_world = (Inr ex_metrics_val, ?w)"
    by (simp add: ex_train_val)
  have res: "fst (pytorch_train_model ex_torch_env ''t5-small'' ''train.json''
      (Some ''val.json'') ''out'' (JObject []) ex_world) = Inr ex_metrics_val"
    by (simp add: ex_train_val)
  have tf_res: "fst (tensorflow_train_model ex_tf_env ''train.json'' (Some ''val.json'')
      ''out'' (JObject []) ex_world) = Inl (LibraryError ''ValueError'')"
    by (simp add: ex_tf_train_val)
  have val: "val_nonempty ex_torch_env (Some ''val.json'') (files ex_world)"
    using ex_val_nonempty(1) by (simp add: ex_world_def)
  have missing: "files ex_world ''missing.json'' = None"
    by (simp add: ex_world_def ex_files_def)
  note inst = eval_keys_follow_validation_data [of ex_torch_env "''t5-small''"
      "''train.json''" "Some ''val.json''" "''out''" "JObject []" ex_world ex_metrics_val ?w
      ex_tf_env "''train.json''" "Some ''val.json''" "''out''" "JObject []"
      "files ex_world" "''missing.json''"]
  from inst [THEN conjunct1, rule_format, OF run] val
  have keys: "dict_keys ex_metrics_val =
     [''train_loss'', ''train_runtime'', ''train_samples_per_second'', ''epoch'',
      ''eval_loss'']"
    by (simp add: opt_def)
  from inst [THEN conjunct2, THEN conjunct2, THEN conjunct2, rule_format, OF missing]
  have no_val: "\<not> val_nonempty ex_torch_env (Some ''missing.json'') (files ex_world)" .
  from res val keys ex_tf_env_needs_data tf_res missing no_val show ?thesis
    by blast
qed

text \<open>
  Claim C3 as stated fails: the validation path \<^verbatim>\<open>empty.json\<close> is given and exists
  (it holds the empty list), the run ends well, and its record has no
  \<^verbatim>\<open>eval_loss\<close>: \<^verbatim>\<open>if val_dataset\<close> asks the dataset for its length.
\<close>

theorem empty_validation_file_gives_no_eval_loss:
  "files ex_world ''empty.json'' = Some ''[]'' \<and>
   fst (pytorch_train_model ex_torch_env ''t5-small'' ''train.json'' (Some ''empty.json'')
     ''out'' (JObject []) ex_world) = Inr ex_metrics \<and>
   dict_keys ex_metrics =
     [''train_loss'', ''train_runtime'', ''train_samples_per_second'', ''epoch'']"
  by (simp add: ex_train_empty_val) (simp add: ex_world_def ex_files_def ex_metrics_def)



section \<open>Callbacks and training arguments\<close>

text \<open>
  Claim C4, as the code has it. Whenever the PyTorch template starts training, the
  trainer was constructed without a callback, with validation data or without: no
  early stopping and no decay of the learning rate on the validation loss is
  installed. Its arguments are those of \<open>pytorch_training_args\<close>: evaluation every
  \<^verbatim>\<open>eval_steps\<close> steps and loading of the best model at the end are on exactly
  when validation data with at least one element was loaded; the number of epochs,
  the checkpoint cadence and the retention limit are passed on from the
  configuration in both cases.
\<close>

theorem callbacks_and_training_arguments:
  "pytorch_train_model env mn tp vp od (JObject cfg) w = (r, w') \<longrightarrow>
     (\<forall>ta cbs. TrainerTrain ta cbs \<in> set (run_events w w') \<longrightarrow>
        cbs = [] \<and>
        ta = pytorch_training_args od cfg (val_nonempty env vp (files w)) \<and>
        evaluation_strategy ta =
          (if val_nonempty env vp (files w) then ''steps'' else ''no'') \<and>
        eval_steps ta =
          (if val_nonempty env vp (files w) then dict_get cfg ''eval_steps'' (JInt 500)
           else JNull) \<and>
        load_best_model_at_end ta = val_nonempty env vp (files w) \<and>
        num_train_epochs ta = dict_get cfg ''epochs'' (JInt 10) \<and>
        save_steps ta = dict_get cfg ''save_steps'' (JInt 1000) \<and>
        save_total_limit ta = dict_get cfg ''save_total_limit'' (JInt 3))"
proof (intro impI allI)
  fix ta cbs
  assume run: "pytorch_train_model env mn tp vp od (JObject cfg) w = (r, w')"
    and ev: "TrainerTrain ta cbs \<in> set (run_events w w')"
  from pytorch_training_started(1) [OF run ev] have cbs: "cbs = []" .
  from pytorch_training_started(2) [OF run ev]
  have ta: "ta = pytorch_training_args od cfg (val_nonempty env vp (files w))"
    by simp
  have "evaluation_strategy ta =
           (if val_nonempty env vp (files w) then ''steps'' else ''no'')"
    and "eval_steps ta =
           (if val_nonempty env vp (files w) then dict_get cfg ''eval_steps'' (JInt 500)
            else JNull)"
    and "load_best_model_at_end ta = val_nonempty env vp (files w)"
    and "num_train_epochs ta = dict_get cfg ''epochs'' (JInt 10)"
    and "save_steps ta = dict_get cfg ''save_steps'' (JInt 1000)"
    and "save_total_limit ta = dict_get cfg ''save_total_limit'' (JInt 3)"
    by (simp_all add: ta pytorch_training_args_def)
  with cbs ta show "cbs = [] \<and>
        ta = pytorch_training_args od cfg (val_nonempty env vp (files w)) \<and>
        evaluation_strategy ta =
          (if val_nonempty env vp (files w) then ''steps'' else ''no'') \<and>
        eval_steps ta =
          (if val_nonempty env vp (files w) then dict_get cfg ''eval_steps'' (JInt 500)
           else JNull) \<and>
        load_best_model_at_end ta = val_nonempty env vp (files w) \<and>
        num_train_epochs ta = dict_get cfg ''epochs'' (JInt 10) \<and>
        save_steps ta = dict_get cfg ''save_steps'' (JInt 1000) \<and>
        save_total_limit ta = dict_get cfg ''save_total_limit'' (JInt 3)"
    by blast
qed

theorem callbacks_and_training_arguments_witness:
  "TrainerTrain (pytorch_training_args ''out'' [] True) [] \<in>
     set (run_events ex_world
       (snd (pytorch_train_model ex_torch_env ''t5-small'' ''train.json'' (Some ''val.json'')
         ''out'' (JObject []) ex_world))) \<and>
   val_nonempty ex_torch_env (Some ''val.json'') (files ex_world) \<and>
   evaluation_strategy (pytorch_training_args ''out'' [] True) = ''steps'' \<and>
   eval_steps (pytorch_training_args ''out'' [] True) = JInt 500 \<and>
   load_best_model_at_end (pytorch_training_args ''out'' [] True) \<and>
   num_train_epochs (pytorch_training_args ''out'' [] True) = JInt 10 \<and>
   TrainerTrain (pytorch_training_args ''out'' [] False) [] \<in>
     set (run_events ex_world
       (snd (pytorch_train_model ex_torch_env ''t5-small'' ''train.json'' None ''out''
         (JObject []) ex_world))) \<and>
   \<not> val_nonempty ex_torch_env None (files ex_world) \<and>
   evaluation_strategy (pytorch_training_args ''out'' [] False) = ''no'' \<and>
   eval_steps (pytorch_training_args ''out'' [] False) = JNull \<and>
   \<not> load_best_model_at_end (pytorch_training_args ''out'' [] False) \<and>
   num_train_epochs (pytorch_training_args ''out'' [] False) = JInt 10"
proof -
  let ?wv = "snd (pytorch_train_model ex_torch_env ''t5-small'' ''train.json''
      (Some ''val.json'') ''out'' (JObject []) ex_world)"
  let ?w = "snd (pytorch_train_model ex_torch_env ''t5-small'' ''train.json'' None ''out''
      (JObject []) ex_world)"
  have run_val: "pytorch_train_model ex_torch_env ''t5-small'' ''train.json''
      (Some ''val.json'') ''out'' (JObject []) ex_world = (Inr ex_metrics_val, ?wv)"
    by (simp add: ex_train_val)
  have run: "pytorch_train_model ex_torch_env ''t5-small'' ''train.json'' None ''out''
      (JObject []) ex_world = (Inr ex_metrics, ?w)"
    by (simp add: ex_train_plain)
  have train_val: "TrainerTrain (pytorch_training_args ''out'' [] True) [] \<in>
      set (run_events ex_world ?wv)"
    unfolding ex_train_val by (simp add: run_events_def ex_world_def)
  have train: "TrainerTrain (pytorch_training_args ''out'' [] False) [] \<in>
      set (run_events ex_world ?w)"
    unfolding ex_train_plain by (simp add: run_events_def ex_world_def)
  have val: "val_nonempty ex_torch_env (Some ''val.json'') (files ex_world)"
    "\<not> val_nonempty ex_torch_env None (files ex_world)"
    using ex_val_nonempty by (simp_all add: ex_world_def)
  note inst_val = callbacks_and_training_arguments [of ex_torch_env "''t5-small''"
      "''train.json''" "Some ''val.json''" "''out''" "[]" ex_world "Inr ex_metrics_val" ?wv]
  note inst = callbacks_and_training_arguments [of ex_torch_env "''t5-small''"
      "''train.json''" None "''out''" "[]" ex_world "Inr ex_metrics" ?w]
  from inst_val [rule_format, OF run_val train_val] val
  have a: "evaluation_strategy (pytorch_training_args ''out'' [] True) = ''steps''"
    "eval_steps (pytorch_training_args ''out'' [] True) = JInt 500"
    "load_best_model_at_end (pytorch_training_args ''out'' [] True)"
    "num_train_epochs (pytorch_training_args ''out'' [] True) = JInt 10"
    by (simp_all add: dict_get_def)
  from inst [rule_format, OF run train] val
  have b: "evaluation_strategy (pytorch_training_args ''out'' [] False) = ''no''"
    "eval_steps (pytorch_training_args ''out'' [] False) = JNull"
    "\<not> load_best_model_at_end (pytorch_training_args ''out'' [] False)"
    "num_train_epochs (pytorch_training_args ''out'' [] False) = JInt 10"
    by (simp_all add: dict_get_def)
  from train_val train val a b show ?thesis
    by blast
qed

text \<open>
  Claim C4 as stated fails: the example run of the PyTorch template has validation
  data with one element, and the trainer is constructed and started without a
  callback; what the validation data switches on is evaluation every 500 steps and
  loading of the best model at the end, nothing else.
\<close>

theorem no_callbacks_with_validation_example:
  "val_nonempty ex_torch_env (Some ''val.json'') (files ex_world) \<and>
   fst (pytorch_main ex_torch_env ex_args_val ex_world) = Inr 0 \<and>
   take 6 (run_events ex_world (snd (pytorch_main ex_torch_env ex_args_val ex_world))) =
     [OpenRead ''config.json'', TokenizerFromPretrained ''t5-small'',
      ModelFromPretrained ''t5-small'', OpenRead ''train.json'', OpenRead ''val.json'',
      TrainerTrain (pytorch_training_args ''out'' [] True) []]"
proof -
  have "val_nonempty ex_torch_env (Some ''val.json'') (files ex_world)"
    using ex_val_nonempty(1) by (simp add: ex_world_def)
  moreover have "fst (pytorch_main ex_torch_env ex_args_val ex_world) = Inr 0"
    by (simp add: ex_main_val)
  moreover have "take 6 (run_events ex_world
      (snd (pytorch_main ex_torch_env ex_args_val ex_world))) =
     [OpenRead ''config.json'', TokenizerFromPretrained ''t5-small'',
      ModelFromPretrained ''t5-small'', OpenRead ''train.json'', OpenRead ''val.json'',
      TrainerTrain (pytorch_training_args ''out'' [] True) []]"
    unfolding ex_main_val by (simp add: run_events_def ex_world_def)
  ultimately show ?thesis
    by blast
qed

end
